theory Spec2Isabelle
  imports Complex_Main
begin

section \<open>JavaScript numbers and strings\<close>

text \<open>
  The counts, percentages and millisecond timestamps of the program are JavaScript
  numbers, that is IEEE 754 binary64 numbers. The stored counts and the timestamps are
  integers; they are \<open>int\<close> or \<open>nat\<close> here. \<open>Math.round\<close> and \<open>Math.ceil\<close> are exact
  functions of the number they are given: \<open>Math.round\<close> is the nearest integer with
  halves going up, \<open>Math.ceil\<close> is the ceiling.
\<close>

definition Math_round :: "real \<Rightarrow> int" where
  "Math_round x = \<lfloor>x + 1 / 2\<rfloor>"

definition Math_ceil :: "real \<Rightarrow> int" where
  "Math_ceil x = \<lceil>x\<rceil>"

text \<open>
  The percentages are computed as \<open>(a / b) * 100\<close>, a division and a multiplication of
  binary64 numbers, each rounded to the nearest number with a significand of 53 bits,
  ties going to the even significand. A binary64 number is represented by a pair
  \<open>(m, e)\<close> of integers that stands for \<open>m \<cdot> 2\<^sup>e\<close>. The exponent is not bounded here: the
  model leaves out overflow to infinity and the subnormal numbers, which the quotient of
  two integers below \<open>2\<^sup>5\<^sup>3\<close> and its product by 100 do not reach.
\<close>

type_synonym double = "int \<times> int"

definition dval :: "double \<Rightarrow> real" where
  "dval x =
     (case x of (m, e) \<Rightarrow>
        if 0 \<le> e then real_of_int (m * 2 ^ nat e) else real_of_int m / 2 ^ nat (- e))"

text \<open>The number of binary digits of a positive integer.\<close>

function bitlen :: "int \<Rightarrow> int" where
  "bitlen n = (if n \<le> 0 then 0 else 1 + bitlen (n div 2))"
  by pat_completeness auto
termination
  by (relation "measure nat") auto

declare bitlen.simps [simp del]

text \<open>The integer nearest to \<open>n / d\<close> for \<open>d > 0\<close>, a tie going to the even one.\<close>

definition round_half_even :: "int \<Rightarrow> int \<Rightarrow> int" where
  "round_half_even n d =
     (let q = n div d; r = n mod d
      in if 2 * r < d then q
         else if d < 2 * r then q + 1
         else if even q then q else q + 1)"

text \<open>
  The binary64 number nearest to the fraction \<open>n / d\<close>, for \<open>d > 0\<close>. With \<open>k\<close> the
  difference of the bit lengths, \<open>2\<^sup>k\<^sup>-\<^sup>1 < |n| / d < 2\<^sup>k\<^sup>+\<^sup>1\<close>; the exponent \<open>e\<close> is chosen so
  that \<open>|n| / d / 2\<^sup>e\<close> lies between \<open>2\<^sup>5\<^sup>2\<close> and \<open>2\<^sup>5\<^sup>3\<close>, and the significand is that
  quotient rounded.
\<close>

definition nearest :: "int \<Rightarrow> int \<Rightarrow> double" where
  "nearest n d =
     (if n = 0 then (0, 0)
      else
        (let k = bitlen \<bar>n\<bar> - bitlen d;
             big = (if 0 \<le> k then d * 2 ^ nat k \<le> \<bar>n\<bar> else d \<le> \<bar>n\<bar> * 2 ^ nat (- k));
             e = (if big then k - 52 else k - 53)
         in if 0 \<le> e then (round_half_even n (d * 2 ^ nat e), e)
            else (round_half_even (n * 2 ^ nat (- e)) d, e)))"

text \<open>\<open>a / b\<close> for two integers, \<open>b\<close> not zero, and \<open>x * k\<close> for a number \<open>x\<close> and an integer \<open>k\<close>.\<close>

definition ddiv :: "int \<Rightarrow> int \<Rightarrow> double" where
  "ddiv a b = (if b < 0 then nearest (- a) (- b) else nearest a b)"

definition dmul :: "double \<Rightarrow> int \<Rightarrow> double" where
  "dmul x k =
     (case x of (m, e) \<Rightarrow>
        if 0 \<le> e then nearest (m * k * 2 ^ nat e) 1 else nearest (m * k) (2 ^ nat (- e)))"

text \<open>Decimal rendering of a number inside a template literal.\<close>

fun digits :: "nat \<Rightarrow> string" where
  "digits n =
     (if n < 10 then [''0123456789'' ! n]
      else digits (n div 10) @ [''0123456789'' ! (n mod 10)])"

definition String_of :: "int \<Rightarrow> string" where
  "String_of n = (if n < 0 then CHR ''-'' # digits (nat (- n)) else digits (nat n))"

text \<open>
  Truthiness of an optional string: \<open>undefined\<close>, \<open>null\<close> and the empty string are falsy.
  \<open>a || b\<close> is \<open>a\<close> when \<open>a\<close> is truthy and \<open>b\<close> otherwise.
\<close>

definition truthy :: "string option \<Rightarrow> string option" where
  "truthy a = (case a of None \<Rightarrow> None | Some s \<Rightarrow> if s = [] then None else Some s)"

definition or_else :: "string option \<Rightarrow> string option \<Rightarrow> string option" where
  "or_else a b = (case truthy a of Some s \<Rightarrow> Some s | None \<Rightarrow> b)"


section \<open>Progress aggregator: \<open>fetchHistory\<close>\<close>

text \<open>
  A calendar day of the user's local time zone is represented by its day number (an
  \<open>int\<close>); \<open>formatDateKey\<close> renders a day as \<open>YYYY-MM-DD\<close>, one string per day, so the
  history map keyed by that string is a map keyed by the day number. The parameter
  \<open>midnight\<close> gives, for a calendar day, the epoch milliseconds that \<open>getTime\<close> returns
  after \<open>setHours(0, 0, 0, 0)\<close> on that day. \<open>streakStartDate\<close> is in epoch milliseconds,
  \<open>today\<close> is the day number of the current day.
\<close>

record DailyHistory =
  date :: int
  percentage :: int
  completed_count :: "int option"
  total_habits :: "int option"

record ChartDataPoint =
  label :: string
  fullDate :: int
  pvalue :: int
  count :: int
  dayNumber :: int

record Stats =
  average :: int
  perfectDays :: nat

record HistoryResults =
  processedData :: "ChartDataPoint list"
  newStats :: Stats

text \<open>The running variables of the loop.\<close>

record loop_vars =
  points :: "ChartDataPoint list"
  totalPercentage :: int
  perfectCount :: nat
  validDaysCount :: nat

definition dayNumber_of :: "(int \<Rightarrow> int) \<Rightarrow> int \<Rightarrow> int \<Rightarrow> int" where
  "dayNumber_of midnight streakStartDate targetDate =
     (let diffTime = midnight targetDate - streakStartDate
      in Math_ceil (real_of_int diffTime / (1000 * 60 * 60 * 24)) + 1)"

text \<open>\<open>record?.completed_count ?? 0\<close>\<close>

definition count_of :: "DailyHistory option \<Rightarrow> int" where
  "count_of r =
     (case r of None \<Rightarrow> 0
      | Some h \<Rightarrow> (case completed_count h of None \<Rightarrow> 0 | Some c \<Rightarrow> c))"

text \<open>\<open>record?.total_habits || 6\<close>: \<open>undefined\<close> and \<open>0\<close> are falsy.\<close>

definition totalTasks_of :: "DailyHistory option \<Rightarrow> int" where
  "totalTasks_of r =
     (case r of None \<Rightarrow> 6
      | Some h \<Rightarrow> (case total_habits h of None \<Rightarrow> 6 | Some t \<Rightarrow> if t = 0 then 6 else t))"

definition value_of :: "DailyHistory option \<Rightarrow> int" where
  "value_of r =
     (let rawPercentage = dmul (ddiv (count_of r) (totalTasks_of r)) 100
      in min (Math_round (dval rawPercentage)) 100)"

text \<open>One iteration of the \<open>for\<close> loop, for the look-back offset \<open>i\<close>.\<close>

definition loop_body ::
  "(int \<Rightarrow> int) \<Rightarrow> (int \<rightharpoonup> DailyHistory) \<Rightarrow> int \<Rightarrow> int \<Rightarrow> nat \<Rightarrow> loop_vars \<Rightarrow> loop_vars" where
  "loop_body midnight historyMap streakStartDate today i a =
     (let targetDate = today - int i;
          dateKey = targetDate;
          dn = dayNumber_of midnight streakStartDate targetDate
      in if dn < 1 then a
         else
           (let r = historyMap dateKey;
                v = value_of r
            in \<lparr> points = points a @
                   [\<lparr> label = CHR ''D'' # String_of dn, fullDate = dateKey, pvalue = v,
                      count = count_of r, dayNumber = dn \<rparr>],
                 totalPercentage = totalPercentage a + v,
                 perfectCount = (if v = 100 then perfectCount a + 1 else perfectCount a),
                 validDaysCount = validDaysCount a + 1 \<rparr>))"

text \<open>
  \<open>for (let i = selectedRange - 1; i >= 0; i--)\<close>: \<open>history_loop \<dots> k a\<close> runs the
  iterations \<open>i = k - 1, \<dots>, 0\<close> from the variables \<open>a\<close>.
\<close>

fun history_loop ::
  "(int \<Rightarrow> int) \<Rightarrow> (int \<rightharpoonup> DailyHistory) \<Rightarrow> int \<Rightarrow> int \<Rightarrow> nat \<Rightarrow> loop_vars \<Rightarrow> loop_vars" where
  "history_loop midnight historyMap streakStartDate today 0 a = a"
| "history_loop midnight historyMap streakStartDate today (Suc i) a =
     history_loop midnight historyMap streakStartDate today i
       (loop_body midnight historyMap streakStartDate today i a)"

definition fetchHistory ::
  "(int \<Rightarrow> int) \<Rightarrow> (int \<rightharpoonup> DailyHistory) \<Rightarrow> nat \<Rightarrow> int \<Rightarrow> int \<Rightarrow> HistoryResults" where
  "fetchHistory midnight historyMap selectedRange streakStartDate today =
     (let a = history_loop midnight historyMap streakStartDate today selectedRange
                \<lparr> points = [], totalPercentage = 0, perfectCount = 0, validDaysCount = 0 \<rparr>
      in \<lparr> processedData = points a,
           newStats =
             \<lparr> average =
                 (if validDaysCount a > 0
                  then Math_round (real_of_int (totalPercentage a) / real (validDaysCount a))
                  else 0),
               perfectDays = perfectCount a \<rparr> \<rparr>)"

text \<open>The range selector of the screen.\<close>

definition RANGES :: "nat list" where
  "RANGES = [7, 15, 30, 90]"

text \<open>
  The derived percentage of a daily record as the specification words it,
  \<open>min(round(completedCount / totalHabits * 100), 100)\<close>, in exact arithmetic; and the
  same expression computed in binary64, as the program computes it.
\<close>

definition spec_percentage :: "int \<Rightarrow> int \<Rightarrow> int" where
  "spec_percentage completedCount totalHabits =
     min (Math_round (real_of_int completedCount / real_of_int totalHabits * 100)) 100"

definition binary64_percentage :: "int \<Rightarrow> int \<Rightarrow> int" where
  "binary64_percentage completedCount totalHabits =
     min (Math_round (dval (dmul (ddiv completedCount totalHabits) 100))) 100"

text \<open>A daily record of the data model: its counts, where stored, are not negative.\<close>

definition wf_record :: "DailyHistory \<Rightarrow> bool" where
  "wf_record r \<longleftrightarrow>
     (case completed_count r of None \<Rightarrow> True | Some c \<Rightarrow> 0 \<le> c) \<and>
     (case total_habits r of None \<Rightarrow> True | Some t \<Rightarrow> 0 \<le> t)"

text \<open>The point that the loop pushes for the calendar day \<open>d\<close>.\<close>

definition point_at ::
  "(int \<Rightarrow> int) \<Rightarrow> (int \<rightharpoonup> DailyHistory) \<Rightarrow> int \<Rightarrow> int \<Rightarrow> ChartDataPoint" where
  "point_at midnight historyMap s d =
     \<lparr> label = CHR ''D'' # String_of (dayNumber_of midnight s d), fullDate = d,
       pvalue = value_of (historyMap d), count = count_of (historyMap d),
       dayNumber = dayNumber_of midnight s d \<rparr>"

text \<open>The sums of the loop agree with the points pushed so far.\<close>

definition consistent :: "loop_vars \<Rightarrow> bool" where
  "consistent a \<longleftrightarrow>
     totalPercentage a = sum_list (map pvalue (points a)) \<and>
     perfectCount a = length (filter (\<lambda>p. pvalue p = 100) (points a)) \<and>
     validDaysCount a = length (points a)"


section \<open>Trigger insight: \<open>processTriggerInsights\<close>\<close>

text \<open>
  \<open>emotionCounts\<close> and \<open>contextCounts\<close> are plain objects used as dictionaries. An
  object is modelled by the list of its own properties in the order in which
  \<open>Object.entries\<close> enumerates them: first the keys that are array indices (the
  canonical decimal strings of the integers \<open>0 \<dots> 2\<^sup>3\<^sup>2 - 2\<close>) in ascending numeric
  order, then every other string key in the order of its creation. Assigning to an
  existing key keeps its place. Reading a key that is not an own property finds the
  property that a plain object inherits from \<open>Object.prototype\<close>, when the key is the
  name of one.
\<close>

text \<open>The field \<open>context\<close> of a log is written \<open>context_of\<close>.\<close>

record TriggerLog =
  emotion :: string
  context_of :: string

text \<open>
  A value that the program stores under a key: a number, which is a count, or a string
  that is not a numeral (it arises only from a key that names an inherited property,
  see \<open>incremented\<close>).
\<close>

datatype jsvalue = Count nat | NonNumeric

text \<open>
  The objects \<open>{ name, count }\<close>. The count of \<open>maxEmotion\<close> and \<open>maxContext\<close> is
  always a number; the count of an entry of the ranking is the stored value.
\<close>

record 'c NameCount =
  name :: string
  ncount :: 'c

record TopEntry = "nat NameCount" +
  npercentage :: int

record TriggerInsight =
  totalLogs :: nat
  topEmotion :: "TopEntry option"
  topContext :: "TopEntry option"
  ranking :: "jsvalue NameCount list"

type_synonym counts = "(string \<times> jsvalue) list"

definition digit_value :: "char \<Rightarrow> int" where
  "digit_value c = int (length (takeWhile (\<lambda>d. d \<noteq> c) ''0123456789''))"

definition numeric_value :: "string \<Rightarrow> int" where
  "numeric_value s = foldl (\<lambda>n c. 10 * n + digit_value c) 0 s"

text \<open>
  An array index: a string of decimal digits without a leading zero, other than \<open>0\<close>
  itself, whose value is at most \<open>2\<^sup>3\<^sup>2 - 2\<close>.
\<close>

definition is_array_index :: "string \<Rightarrow> bool" where
  "is_array_index s \<longleftrightarrow>
     s \<noteq> [] \<and> list_all (\<lambda>c. c \<in> set ''0123456789'') s \<and>
     (s = ''0'' \<or> hd s \<noteq> CHR ''0'') \<and> numeric_value s \<le> 4294967294"

text \<open>
  The names of the properties that a plain object inherits from \<open>Object.prototype\<close>:
  functions, and for \<open>__proto__\<close> an accessor that yields the prototype object.
\<close>

definition inherited_names :: "string list" where
  "inherited_names =
     [''constructor'', ''hasOwnProperty'', ''isPrototypeOf'', ''propertyIsEnumerable'',
      ''toLocaleString'', ''toString'', ''valueOf'', ''__proto__'', ''__defineGetter__'',
      ''__defineSetter__'', ''__lookupGetter__'', ''__lookupSetter__'']"

text \<open>
  \<open>counts[k]\<close>: the own property, else the inherited function or object, else
  \<open>undefined\<close>.
\<close>

datatype lookup = Own jsvalue | Inherited | Undefined

definition get_property :: "counts \<Rightarrow> string \<Rightarrow> lookup" where
  "get_property obj k =
     (case map_of obj k of
        Some v \<Rightarrow> Own v
      | None \<Rightarrow> if k \<in> set inherited_names then Inherited else Undefined)"

text \<open>
  \<open>(v || 0) + 1\<close>: \<open>undefined\<close> and 0 are falsy and give \<open>0 + 1\<close>; another number is
  incremented; a function, an object and a non-empty string are truthy, and \<open>+\<close> then
  appends \<open>1\<close> to their text, which gives a non-empty string that is not a numeral.
\<close>

definition incremented :: "lookup \<Rightarrow> jsvalue" where
  "incremented v =
     (case v of
        Undefined \<Rightarrow> Count 1
      | Own (Count c) \<Rightarrow> Count (c + 1)
      | Own NonNumeric \<Rightarrow> NonNumeric
      | Inherited \<Rightarrow> NonNumeric)"

fun put_new :: "string \<Rightarrow> jsvalue \<Rightarrow> counts \<Rightarrow> counts" where
  "put_new k v [] = [(k, v)]"
| "put_new k v ((k', v') # rest) =
     (if is_array_index k \<and> (\<not> is_array_index k' \<or> numeric_value k < numeric_value k')
      then (k, v) # (k', v') # rest
      else (k', v') # put_new k v rest)"

fun replace_value :: "string \<Rightarrow> jsvalue \<Rightarrow> counts \<Rightarrow> counts" where
  "replace_value k v [] = []"
| "replace_value k v ((k', v') # rest) =
     (if k' = k then (k, v) # rest else (k', v') # replace_value k v rest)"

text \<open>
  \<open>counts[k] = v\<close> for a number or a string \<open>v\<close>. The key \<open>__proto__\<close> reaches the
  inherited setter, which ignores a value that is not an object; every other key becomes
  or stays an own property.
\<close>

definition obj_set :: "counts \<Rightarrow> string \<Rightarrow> jsvalue \<Rightarrow> counts" where
  "obj_set obj k v =
     (if k = ''__proto__'' then obj
      else case map_of obj k of Some old \<Rightarrow> replace_value k v obj | None \<Rightarrow> put_new k v obj)"

text \<open>\<open>counts[k] = (counts[k] || 0) + 1\<close>\<close>

definition bump :: "counts \<Rightarrow> string \<Rightarrow> counts" where
  "bump obj k = obj_set obj k (incremented (get_property obj k))"

text \<open>The \<open>forEach\<close> over the logs that fills both dictionaries.\<close>

definition aggregate :: "TriggerLog list \<Rightarrow> counts \<times> counts" where
  "aggregate logs =
     fold (\<lambda>log (emotionCounts, contextCounts).
             (bump emotionCounts (emotion log), bump contextCounts (context_of log)))
       logs ([], [])"

text \<open>
  The scan for the top entry: it starts from \<open>{ name: '', count: 0 }\<close> and replaces the
  maximum only by a strictly greater count. \<open>count > maxEmotion.count\<close> is false for a
  string that is not a numeral, which compares as \<open>NaN\<close>.
\<close>

definition scan_max :: "counts \<Rightarrow> nat NameCount" where
  "scan_max entries =
     fold (\<lambda>(n, c) m.
             case c of
               Count v \<Rightarrow> if v > ncount m then \<lparr> name = n, ncount = v \<rparr> else m
             | NonNumeric \<Rightarrow> m)
       entries \<lparr> name = [], ncount = 0 \<rparr>"

text \<open>\<open>x - y\<close> on stored values; \<open>None\<close> is \<open>NaN\<close>.\<close>

definition minus_values :: "jsvalue \<Rightarrow> jsvalue \<Rightarrow> int option" where
  "minus_values x y =
     (case (x, y) of (Count a, Count b) \<Rightarrow> Some (int a - int b) | _ \<Rightarrow> None)"

text \<open>
  \<open>Array.prototype.sort\<close> with a comparison function is a stable sort: an element stays
  before the later elements that compare equal to it. A result \<open>NaN\<close> of the comparison
  function counts as \<open>+0\<close>. For a comparison function that is a consistent ordering every
  stable sort gives the same array, here by insertion; for one that is not, which happens
  only with a result \<open>NaN\<close>, the language leaves the order to the implementation.
\<close>

fun insert_sorted :: "('a \<Rightarrow> 'a \<Rightarrow> int) \<Rightarrow> 'a \<Rightarrow> 'a list \<Rightarrow> 'a list" where
  "insert_sorted cmp x [] = [x]"
| "insert_sorted cmp x (y # ys) =
     (if cmp x y \<le> 0 then x # y # ys else y # insert_sorted cmp x ys)"

definition Array_sort :: "('a \<Rightarrow> 'a \<Rightarrow> int option) \<Rightarrow> 'a list \<Rightarrow> 'a list" where
  "Array_sort comparefn xs =
     foldr (insert_sorted (\<lambda>x y. case comparefn x y of None \<Rightarrow> 0 | Some v \<Rightarrow> v)) xs []"

definition with_percentage :: "nat NameCount \<Rightarrow> nat \<Rightarrow> TopEntry" where
  "with_percentage m len =
     \<lparr> name = name m, ncount = ncount m,
       npercentage = Math_round (dval (dmul (ddiv (int (ncount m)) (int len)) 100)) \<rparr>"

text \<open>The function returns the value that it passes to \<open>setTriggerInsight\<close>.\<close>

definition processTriggerInsights :: "TriggerLog list \<Rightarrow> TriggerInsight" where
  "processTriggerInsights logs =
     (if length logs = 0
      then \<lparr> totalLogs = 0, topEmotion = None, topContext = None, ranking = [] \<rparr>
      else
        (let (emotionCounts, contextCounts) = aggregate logs;
             maxEmotion = scan_max emotionCounts;
             maxContext = scan_max contextCounts;
             ranking =
               take 3 (Array_sort (\<lambda>a b. minus_values (ncount b) (ncount a))
                         (map (\<lambda>(n, c). \<lparr> name = n, ncount = c \<rparr>) emotionCounts))
         in \<lparr> totalLogs = length logs,
              topEmotion = Some (with_percentage maxEmotion (length logs)),
              topContext = Some (with_percentage maxContext (length logs)),
              ranking = ranking \<rparr>))"









section \<open>Subscription reconciler: the Stripe webhooks\<close>

subsection \<open>Firebase Auth and Firestore\<close>

text \<open>
  The state that the webhooks act on is the user table of Firebase Auth and the Firestore
  collection \<open>users\<close>. An identity is created with a uid that no earlier identity has;
  the uids are numbered. A document is a map from field names to values.
  \<open>FieldValue.serverTimestamp()\<close> is a sentinel that the server replaces by its time
  when it applies the write.
\<close>

type_synonym uid = nat

record UserRecord =
  uid :: uid
  emailVerified :: bool

record auth_store =
  accounts :: "string \<rightharpoonup> UserRecord"
  next_uid :: uid

datatype fs_value = Str string | Num int | Flag bool | Timestamp nat | ServerTimestamp

type_synonym document = "string \<rightharpoonup> fs_value"

record world =
  auth :: auth_store
  users :: "uid \<rightharpoonup> document"

text \<open>
  What the services answer to one run of the reconciler, beyond what the state decides:
  the server time of the write, and for each of the three calls the error code with
  which the call is rejected for a reason of its own (an outage, a request raced by
  another delivery), if it is.
\<close>

record env =
  now :: nat
  lookup_fault :: "string option"
  create_fault :: "string option"
  set_fault :: "string option"

definition getUserByEmail :: "env \<Rightarrow> auth_store \<Rightarrow> string \<Rightarrow> string + UserRecord" where
  "getUserByEmail e a email =
     (case lookup_fault e of
        Some code \<Rightarrow> Inl code
      | None \<Rightarrow>
          (case accounts a email of
             None \<Rightarrow> Inl ''auth/user-not-found''
           | Some userRecord \<Rightarrow> Inr userRecord))"

definition createUser ::
  "env \<Rightarrow> auth_store \<Rightarrow> string \<Rightarrow> bool \<Rightarrow> string + (UserRecord \<times> auth_store)" where
  "createUser e a email verified =
     (case create_fault e of
        Some code \<Rightarrow> Inl code
      | None \<Rightarrow>
          (case accounts a email of
             Some existing \<Rightarrow> Inl ''auth/email-already-exists''
           | None \<Rightarrow>
               (let newUser = \<lparr> uid = next_uid a, emailVerified = verified \<rparr>
                in Inr (newUser,
                        a\<lparr> accounts := (accounts a)(email \<mapsto> newUser),
                           next_uid := Suc (next_uid a) \<rparr>))))"

definition resolve :: "env \<Rightarrow> fs_value \<Rightarrow> fs_value" where
  "resolve e v = (case v of ServerTimestamp \<Rightarrow> Timestamp (now e) | _ \<Rightarrow> v)"

text \<open>\<open>doc(uid).set(data, { merge: true })\<close>: the fields of \<open>data\<close> are written, the others stay.\<close>

definition set_merge ::
  "env \<Rightarrow> (uid \<rightharpoonup> document) \<Rightarrow> uid \<Rightarrow> document \<Rightarrow> string + (uid \<rightharpoonup> document)" where
  "set_merge e docs u data =
     (case set_fault e of
        Some code \<Rightarrow> Inl code
      | None \<Rightarrow>
          (let written = map_option (resolve e) \<circ> data
           in Inr (docs(u \<mapsto> (case docs u of None \<Rightarrow> written | Some d \<Rightarrow> d ++ written)))))"

subsection \<open>\<open>syncSubscription\<close> (api/webhook.ts) and \<open>updateUserSubscriptionStatus\<close>\<close>

text \<open>
  The result is the returned boolean and the state left behind. The Firebase Admin app
  is taken to be initialised.
\<close>

text \<open>The object \<open>updateData\<close> that both functions prepare for Firestore.\<close>

definition updateData_of :: "string \<Rightarrow> string \<Rightarrow> string option \<Rightarrow> document" where
  "updateData_of email status customerId =
     (let updateData =
            [''subscription_status'' \<mapsto> Str status,
             ''updated_at'' \<mapsto> ServerTimestamp,
             ''email'' \<mapsto> Str email]
      in case truthy customerId of
           Some c \<Rightarrow> updateData(''stripe_customer_id'' \<mapsto> Str c)
         | None \<Rightarrow> updateData)"

definition syncSubscription ::
  "env \<Rightarrow> string \<Rightarrow> string \<Rightarrow> string option \<Rightarrow> world \<Rightarrow> bool \<times> world" where
  "syncSubscription e email status customerId w =
     (case
        (case getUserByEmail e (auth w) email of
           Inr userRecord \<Rightarrow> Inr (uid userRecord, w)
         | Inl code \<Rightarrow>
             if code = ''auth/user-not-found''
             then (case createUser e (auth w) email True of
                     Inr (newUser, a') \<Rightarrow> Inr (uid newUser, w\<lparr> auth := a' \<rparr>)
                   | Inl err \<Rightarrow> Inl err)
             else Inl code)
      of
        Inl error \<Rightarrow> (False, w)
      | Inr (u, w1) \<Rightarrow>
          (case set_merge e (users w1) u (updateData_of email status customerId) of
             Inl error \<Rightarrow> (False, w1)
           | Inr docs \<Rightarrow> (True, w1\<lparr> users := docs \<rparr>)))"

definition updateUserSubscriptionStatus ::
  "env \<Rightarrow> string \<Rightarrow> string \<Rightarrow> string option \<Rightarrow> world \<Rightarrow> bool \<times> world" where
  "updateUserSubscriptionStatus e email status customerId w =
     (case
        (case getUserByEmail e (auth w) email of
           Inr userRecord \<Rightarrow> Inr (uid userRecord, w)
         | Inl code \<Rightarrow>
             if code = ''auth/user-not-found''
             then (case createUser e (auth w) email True of
                     Inr (newUser, a') \<Rightarrow> Inr (uid newUser, w\<lparr> auth := a' \<rparr>)
                   | Inl err \<Rightarrow> Inl err)
             else Inl code)
      of
        Inl error \<Rightarrow> (False, w)
      | Inr (u, w1) \<Rightarrow>
          (case set_merge e (users w1) u (updateData_of email status customerId) of
             Inl error \<Rightarrow> (False, w1)
           | Inr docs \<Rightarrow> (True, w1\<lparr> users := docs \<rparr>)))"

subsection \<open>Requests, events and responses\<close>

text \<open>
  The Stripe library is outside the program: \<open>constructEvent\<close> (payload, signature header,
  secret) either throws with a message or returns the event, \<open>customers.retrieve\<close>
  either throws or returns the customer. Both are parameters. Of the object of an event
  the model keeps the fields that the handlers read.
\<close>

record data_object =
  customer_details_email :: "string option"
  customer_email :: "string option"
  customer :: "string option"
  status :: string

record stripe_event =
  etype :: string
  object :: data_object

record Customer =
  customer_id :: string
  email :: "string option"

record stripe_api =
  constructEvent :: "string \<Rightarrow> string \<Rightarrow> string \<Rightarrow> string + stripe_event"
  customers_retrieve :: "string option \<Rightarrow> string + Customer"

record request =
  httpMethod :: string
  stripe_signature :: "string option"
  rawBody :: string

text \<open>The event of a Netlify function: its body and its \<open>stripe-signature\<close> header.\<close>

record netlify_event =
  nbody :: "string option"
  nsignature :: "string option"

datatype json = JBool bool | JStr string | JObj "(string \<times> json) list"

datatype payload = Text string | Json json

record response =
  statusCode :: nat
  allow :: "string option"
  payload :: payload

definition received :: json where
  "received = JObj [(''received'', JBool True)]"

definition internal_error :: json where
  "internal_error = JObj [(''error'', JStr ''Internal Server Error'')]"

subsection \<open>The handler of api/webhook.ts\<close>

text \<open>The \<open>try\<close> block that builds the event, with the message of what it throws.\<close>

definition verifyEvent :: "stripe_api \<Rightarrow> string \<Rightarrow> request \<Rightarrow> string + stripe_event" where
  "verifyEvent stripe endpointSecret req =
     (case truthy (stripe_signature req) of
        None \<Rightarrow> Inl ''Missing Signature or Webhook Secret''
      | Some sig \<Rightarrow>
          if endpointSecret = [] then Inl ''Missing Signature or Webhook Secret''
          else constructEvent stripe (rawBody req) sig endpointSecret)"

text \<open>The \<open>switch\<close> on the event type; \<open>Inl\<close> is an exception that leaves it.\<close>

definition processEvent :: "stripe_api \<Rightarrow> env \<Rightarrow> stripe_event \<Rightarrow> world \<Rightarrow> string + world" where
  "processEvent stripe e event w =
     (let ty = etype event; obj = object event in
      if ty = ''checkout.session.completed'' \<or> ty = ''invoice.payment_succeeded'' then
        (case truthy (or_else (customer_details_email obj) (customer_email obj)) of
           Some em \<Rightarrow> Inr (snd (syncSubscription e em ''active'' (customer obj) w))
         | None \<Rightarrow> Inr w)
      else if ty = ''invoice.payment_failed'' then
        (case truthy (customer_email obj) of
           Some em \<Rightarrow> Inr (snd (syncSubscription e em ''past_due'' None w))
         | None \<Rightarrow> Inr w)
      else if ty = ''customer.subscription.updated'' then
        (case customers_retrieve stripe (customer obj) of
           Inl err \<Rightarrow> Inl err
         | Inr cust \<Rightarrow>
             (case truthy (email cust) of
                Some em \<Rightarrow> Inr (snd (syncSubscription e em (status obj) (customer obj) w))
              | None \<Rightarrow> Inr w))
      else if ty = ''customer.subscription.deleted'' then
        (case customers_retrieve stripe (customer obj) of
           Inl err \<Rightarrow> Inl err
         | Inr cust \<Rightarrow>
             (case truthy (email cust) of
                Some em \<Rightarrow> Inr (snd (syncSubscription e em ''canceled'' None w))
              | None \<Rightarrow> Inr w))
      else Inr w)"

definition handler ::
  "stripe_api \<Rightarrow> string \<Rightarrow> env \<Rightarrow> request \<Rightarrow> world \<Rightarrow> response \<times> world" where
  "handler stripe endpointSecret e req w =
     (if httpMethod req \<noteq> ''POST''
      then (\<lparr> statusCode = 405, allow = Some ''POST'', payload = Text ''Method Not Allowed'' \<rparr>, w)
      else
        (case verifyEvent stripe endpointSecret req of
           Inl message \<Rightarrow>
             (\<lparr> statusCode = 400, allow = None,
                payload = Text (''Webhook Error: '' @ message) \<rparr>, w)
         | Inr event \<Rightarrow>
             (case processEvent stripe e event w of
                Inr w' \<Rightarrow> (\<lparr> statusCode = 200, allow = None, payload = Json received \<rparr>, w')
              | Inl err \<Rightarrow>
                  (\<lparr> statusCode = 500, allow = None, payload = Json internal_error \<rparr>, w))))"

subsection \<open>The second handler of api/webhook.ts (modular Firebase API)\<close>

definition verifyEvent_modular ::
  "stripe_api \<Rightarrow> string \<Rightarrow> request \<Rightarrow> string + stripe_event" where
  "verifyEvent_modular stripe endpointSecret req =
     (case truthy (stripe_signature req) of
        None \<Rightarrow> Inl ''Missing Stripe Signature or Secret''
      | Some sig \<Rightarrow>
          if endpointSecret = [] then Inl ''Missing Stripe Signature or Secret''
          else constructEvent stripe (rawBody req) sig endpointSecret)"

definition processEvent_modular ::
  "stripe_api \<Rightarrow> env \<Rightarrow> stripe_event \<Rightarrow> world \<Rightarrow> string + world" where
  "processEvent_modular stripe e event w =
     (let ty = etype event; obj = object event in
      if ty = ''checkout.session.completed'' \<or> ty = ''invoice.payment_succeeded'' then
        (case truthy (or_else (customer_details_email obj) (customer_email obj)) of
           Some em \<Rightarrow> Inr (snd (syncSubscription e em ''active'' (customer obj) w))
         | None \<Rightarrow> Inr w)
      else if ty = ''invoice.payment_failed'' then
        (case truthy (customer_email obj) of
           Some em \<Rightarrow> Inr (snd (syncSubscription e em ''past_due'' None w))
         | None \<Rightarrow> Inr w)
      else if ty = ''customer.subscription.updated'' \<or> ty = ''customer.subscription.deleted'' then
        (let st = (if ty = ''customer.subscription.deleted'' then ''canceled'' else status obj)
         in case customers_retrieve stripe (customer obj) of
              Inl err \<Rightarrow> Inl err
            | Inr cust \<Rightarrow>
                (case truthy (email cust) of
                   Some em \<Rightarrow> Inr (snd (syncSubscription e em st (Some (customer_id cust)) w))
                 | None \<Rightarrow> Inr w))
      else Inr w)"

definition handler_modular ::
  "stripe_api \<Rightarrow> string \<Rightarrow> env \<Rightarrow> request \<Rightarrow> world \<Rightarrow> response \<times> world" where
  "handler_modular stripe endpointSecret e req w =
     (if httpMethod req \<noteq> ''POST''
      then (\<lparr> statusCode = 405, allow = None, payload = Text ''Method Not Allowed'' \<rparr>, w)
      else
        (case verifyEvent_modular stripe endpointSecret req of
           Inl message \<Rightarrow>
             (\<lparr> statusCode = 400, allow = None,
                payload = Text (''Webhook Error: '' @ message) \<rparr>, w)
         | Inr event \<Rightarrow>
             (case processEvent_modular stripe e event w of
                Inr w' \<Rightarrow> (\<lparr> statusCode = 200, allow = None, payload = Json received \<rparr>, w')
              | Inl err \<Rightarrow>
                  (\<lparr> statusCode = 500, allow = None, payload = Json internal_error \<rparr>, w))))"

subsection \<open>The Netlify handler\<close>

text \<open>
  \<open>headers['stripe-signature'] || ''\<close> and \<open>body || ''\<close> go to \<open>constructEvent\<close> as they
  are. The body \<open>JSON.stringify({ received: true })\<close> of the response is kept as the
  JSON value.
\<close>

definition or_empty :: "string option \<Rightarrow> string" where
  "or_empty a = (case truthy a of Some s \<Rightarrow> s | None \<Rightarrow> [])"

definition verifyEvent_netlify ::
  "stripe_api \<Rightarrow> string \<Rightarrow> netlify_event \<Rightarrow> string + stripe_event" where
  "verifyEvent_netlify stripe endpointSecret ev =
     (let sig = or_empty (nsignature ev)
      in constructEvent stripe (or_empty (nbody ev)) sig endpointSecret)"

definition processEvent_netlify ::
  "stripe_api \<Rightarrow> env \<Rightarrow> stripe_event \<Rightarrow> world \<Rightarrow> string + world" where
  "processEvent_netlify stripe e stripeEvent w =
     (let ty = etype stripeEvent; obj = object stripeEvent in
      if ty = ''checkout.session.completed'' then
        (case truthy (customer_details_email obj) of
           Some em \<Rightarrow> Inr (snd (updateUserSubscriptionStatus e em ''active'' (customer obj) w))
         | None \<Rightarrow> Inr w)
      else if ty = ''invoice.payment_failed'' then
        (case truthy (customer_email obj) of
           Some em \<Rightarrow> Inr (snd (updateUserSubscriptionStatus e em ''past_due'' None w))
         | None \<Rightarrow> Inr w)
      else if ty = ''customer.subscription.deleted'' then
        (case customers_retrieve stripe (customer obj) of
           Inl err \<Rightarrow> Inl err
         | Inr cust \<Rightarrow>
             (case truthy (email cust) of
                Some em \<Rightarrow> Inr (snd (updateUserSubscriptionStatus e em ''canceled'' None w))
              | None \<Rightarrow> Inr w))
      else Inr w)"

definition handler_netlify ::
  "stripe_api \<Rightarrow> string \<Rightarrow> env \<Rightarrow> netlify_event \<Rightarrow> world \<Rightarrow> response \<times> world" where
  "handler_netlify stripe endpointSecret e ev w =
     (case verifyEvent_netlify stripe endpointSecret ev of
        Inl message \<Rightarrow>
          (\<lparr> statusCode = 400, allow = None,
             payload = Text (''Webhook Error: '' @ message) \<rparr>, w)
      | Inr stripeEvent \<Rightarrow>
          (case processEvent_netlify stripe e stripeEvent w of
             Inl processError \<Rightarrow>
               (\<lparr> statusCode = 200, allow = None, payload = Text ''Processed with error'' \<rparr>, w)
           | Inr w' \<Rightarrow> (\<lparr> statusCode = 200, allow = None, payload = Json received \<rparr>, w')))"

subsection \<open>Observations on the state\<close>

text \<open>A field of the user document of a uid, and the stored status of an email.\<close>

definition field :: "world \<Rightarrow> uid \<Rightarrow> string \<Rightarrow> fs_value option" where
  "field w u f = (case users w u of None \<Rightarrow> None | Some d \<Rightarrow> d f)"

definition status_of :: "world \<Rightarrow> string \<Rightarrow> fs_value option" where
  "status_of w em =
     (case accounts (auth w) em of
        None \<Rightarrow> None
      | Some userRecord \<Rightarrow> field w (uid userRecord) ''subscription_status'')"

text \<open>
  The uid that a run of the reconciler for an email works on: the uid of the identity, or
  the next fresh uid when there is none yet.
\<close>

definition target_uid :: "world \<Rightarrow> string \<Rightarrow> uid" where
  "target_uid w em =
     (case accounts (auth w) em of
        Some userRecord \<Rightarrow> uid userRecord
      | None \<Rightarrow> next_uid (auth w))"

text \<open>The fields of \<open>updateData\<close> as the server stores them, and their names.\<close>

definition written :: "env \<Rightarrow> string \<Rightarrow> string \<Rightarrow> string option \<Rightarrow> document" where
  "written e em st cid = map_option (resolve e) \<circ> updateData_of em st cid"

definition written_fields :: "string set" where
  "written_fields = {''subscription_status'', ''updated_at'', ''email'', ''stripe_customer_id''}"

text \<open>
  The response \<open>200 { received: true }\<close>; an outcome that acknowledges the event with the
  status stored for the email; an outcome that acknowledges it and leaves the state as it
  was.
\<close>

definition ok_response :: response where
  "ok_response = \<lparr> statusCode = 200, allow = None, payload = Json received \<rparr>"

definition acknowledged_with :: "response \<times> world \<Rightarrow> string \<Rightarrow> string \<Rightarrow> bool" where
  "acknowledged_with out em st \<longleftrightarrow>
     fst out = ok_response \<and> status_of (snd out) em = Some (Str st)"

definition ignored :: "response \<times> world \<Rightarrow> world \<Rightarrow> bool" where
  "ignored out w \<longleftrightarrow> fst out = ok_response \<and> snd out = w"

text \<open>
  \<open>touches e w w'\<close>: the state \<open>w'\<close> is \<open>w\<close> itself or what one run of the reconciler
  leaves of \<open>w\<close>.
\<close>

definition touches :: "env \<Rightarrow> world \<Rightarrow> world \<Rightarrow> bool" where
  "touches e w w' \<longleftrightarrow>
     w' = w \<or> (\<exists>em st cid. w' = snd (syncSubscription e em st cid w))"

text \<open>The services answer and reject nothing for a reason of their own.\<close>

definition quiet :: "env \<Rightarrow> bool" where
  "quiet e \<longleftrightarrow> lookup_fault e = None \<and> create_fault e = None \<and> set_fault e = None"

text \<open>The status that the specification gives to an event type, if it gives one.\<close>

definition spec_status :: "string \<Rightarrow> string \<Rightarrow> string option" where
  "spec_status ty reported =
     (if ty = ''checkout.session.completed'' \<or> ty = ''invoice.payment_succeeded''
      then Some ''active''
      else if ty = ''invoice.payment_failed'' then Some ''past_due''
      else if ty = ''customer.subscription.updated'' then Some reported
      else if ty = ''customer.subscription.deleted'' then Some ''canceled''
      else None)"


text \<open>
  The mapping of event types to statuses, said of the outcome \<open>out\<close> of a handler on the
  verified event \<open>ev\<close> from the state \<open>w\<close>. \<open>maps_as_specified\<close> is the mapping of the
  specification, where the email is the one that the event carries or that the customer
  lookup returns; \<open>maps_three_types\<close> is the mapping of the Netlify handler.
\<close>

definition maps_as_specified ::
  "stripe_api \<Rightarrow> stripe_event \<Rightarrow> response \<times> world \<Rightarrow> world \<Rightarrow> bool" where
  "maps_as_specified stripe ev out w \<longleftrightarrow>
     (let obj = object ev; ty = etype ev in
      \<forall>em cust.
        ((ty = ''checkout.session.completed'' \<or> ty = ''invoice.payment_succeeded'') \<and>
          truthy (or_else (customer_details_email obj) (customer_email obj)) = Some em \<longrightarrow>
            acknowledged_with out em ''active'') \<and>
        (ty = ''invoice.payment_failed'' \<and> truthy (customer_email obj) = Some em \<longrightarrow>
            acknowledged_with out em ''past_due'') \<and>
        (ty = ''customer.subscription.updated'' \<and>
          customers_retrieve stripe (customer obj) = Inr cust \<and> truthy (email cust) = Some em \<longrightarrow>
            acknowledged_with out em (status obj)) \<and>
        (ty = ''customer.subscription.deleted'' \<and>
          customers_retrieve stripe (customer obj) = Inr cust \<and> truthy (email cust) = Some em \<longrightarrow>
            acknowledged_with out em ''canceled'') \<and>
        (spec_status ty (status obj) = None \<longrightarrow> ignored out w))"

definition maps_three_types ::
  "stripe_api \<Rightarrow> stripe_event \<Rightarrow> response \<times> world \<Rightarrow> world \<Rightarrow> bool" where
  "maps_three_types stripe ev out w \<longleftrightarrow>
     (let obj = object ev; ty = etype ev in
      \<forall>em cust.
        (ty = ''checkout.session.completed'' \<and> truthy (customer_details_email obj) = Some em \<longrightarrow>
            acknowledged_with out em ''active'') \<and>
        (ty = ''invoice.payment_failed'' \<and> truthy (customer_email obj) = Some em \<longrightarrow>
            acknowledged_with out em ''past_due'') \<and>
        (ty = ''customer.subscription.deleted'' \<and>
          customers_retrieve stripe (customer obj) = Inr cust \<and> truthy (email cust) = Some em \<longrightarrow>
            acknowledged_with out em ''canceled'') \<and>
        (ty \<noteq> ''checkout.session.completed'' \<and> ty \<noteq> ''invoice.payment_failed'' \<and>
         ty \<noteq> ''customer.subscription.deleted'' \<longrightarrow> ignored out w))"


text \<open>
  The events for which the \<open>switch\<close> calls the reconciler, with the email that it is called
  for: \<open>calls_reconciler\<close> for the two handlers of api/webhook.ts, which call it in the same
  cases, \<open>calls_reconciler_netlify\<close> for the Netlify handler.
\<close>

definition calls_reconciler :: "stripe_api \<Rightarrow> stripe_event \<Rightarrow> string \<Rightarrow> bool" where
  "calls_reconciler stripe ev em \<longleftrightarrow>
     (let obj = object ev; ty = etype ev in
      ((ty = ''checkout.session.completed'' \<or> ty = ''invoice.payment_succeeded'') \<and>
         truthy (or_else (customer_details_email obj) (customer_email obj)) = Some em) \<or>
      (ty = ''invoice.payment_failed'' \<and> truthy (customer_email obj) = Some em) \<or>
      ((ty = ''customer.subscription.updated'' \<or> ty = ''customer.subscription.deleted'') \<and>
         (case customers_retrieve stripe (customer obj) of
            Inr cust \<Rightarrow> truthy (email cust) = Some em
          | Inl err \<Rightarrow> False)))"

definition calls_reconciler_netlify :: "stripe_api \<Rightarrow> stripe_event \<Rightarrow> string \<Rightarrow> bool" where
  "calls_reconciler_netlify stripe ev em \<longleftrightarrow>
     (let obj = object ev; ty = etype ev in
      (ty = ''checkout.session.completed'' \<and> truthy (customer_details_email obj) = Some em) \<or>
      (ty = ''invoice.payment_failed'' \<and> truthy (customer_email obj) = Some em) \<or>
      (ty = ''customer.subscription.deleted'' \<and>
         (case customers_retrieve stripe (customer obj) of
            Inr cust \<Rightarrow> truthy (email cust) = Some em
          | Inl err \<Rightarrow> False)))"


section \<open>Sample inputs\<close>

text \<open>
  A time zone without daylight saving, and a history of three days: a half day, a perfect
  day, and a record whose stored total is zero with more completions than habits.
\<close>

definition plain_midnight :: "int \<Rightarrow> int" where
  "plain_midnight d = d * 86400000"

definition sample_history :: "int \<rightharpoonup> DailyHistory" where
  "sample_history =
     [10 \<mapsto> \<lparr> date = 10, percentage = 50, completed_count = Some 3, total_habits = Some 6 \<rparr>,
      9 \<mapsto> \<lparr> date = 9, percentage = 100, completed_count = Some 6, total_habits = Some 6 \<rparr>,
      8 \<mapsto> \<lparr> date = 8, percentage = 0, completed_count = Some 7, total_habits = Some 0 \<rparr>]"



text \<open>A history of one day with 23 of 40 habits completed.\<close>

definition float_history :: "int \<rightharpoonup> DailyHistory" where
  "float_history =
     [10 \<mapsto> \<lparr> date = 10, percentage = 58, completed_count = Some 23, total_habits = Some 40 \<rparr>]"

text \<open>No account and no document; services that answer at server time \<open>t\<close>.\<close>

definition empty_world :: world where
  "empty_world = \<lparr> auth = \<lparr> accounts = Map.empty, next_uid = 0 \<rparr>, users = Map.empty \<rparr>"

definition calm :: "nat \<Rightarrow> env" where
  "calm t = \<lparr> now = t, lookup_fault = None, create_fault = None, set_fault = None \<rparr>"

text \<open>
  A buyer; a state in which the buyer's identity exists without a document; services
  whose lookup answered before that identity was there.
\<close>

definition buyer :: string where
  "buyer = ''buyer@example.com''"

definition existing_world :: world where
  "existing_world =
     \<lparr> auth = \<lparr> accounts = [buyer \<mapsto> \<lparr> uid = 0, emailVerified = True \<rparr>], next_uid = 1 \<rparr>,
       users = Map.empty \<rparr>"

text \<open>A state in which the buyer has a document from the onboarding.\<close>

definition onboarded_world :: world where
  "onboarded_world =
     \<lparr> auth = \<lparr> accounts = [buyer \<mapsto> \<lparr> uid = 0, emailVerified = True \<rparr>], next_uid = 1 \<rparr>,
       users = [0 \<mapsto> [''onboarding_completed'' \<mapsto> Flag True,
                        ''subscription_status'' \<mapsto> Str ''trialing'']] \<rparr>"

definition stale_lookup :: "nat \<Rightarrow> env" where
  "stale_lookup t =
     \<lparr> now = t, lookup_fault = Some ''auth/user-not-found'', create_fault = None,
       set_fault = None \<rparr>"

text \<open>
  A paid invoice of the buyer; a Stripe library that accepts the signature \<open>good\<close> only
  and then yields the given event; requests that carry a signature.
\<close>

definition paid_invoice :: stripe_event where
  "paid_invoice =
     \<lparr> etype = ''invoice.payment_succeeded'',
       object = \<lparr> customer_details_email = None, customer_email = Some buyer,
                  customer = Some ''cus_1'', status = ''paid'' \<rparr> \<rparr>"

definition failed_invoice :: stripe_event where
  "failed_invoice =
     \<lparr> etype = ''invoice.payment_failed'',
       object = \<lparr> customer_details_email = None, customer_email = Some buyer,
                  customer = Some ''cus_1'', status = ''open'' \<rparr> \<rparr>"

definition sample_stripe :: "stripe_event \<Rightarrow> stripe_api" where
  "sample_stripe ev =
     \<lparr> constructEvent =
         (\<lambda>body sig secret. if sig = ''good'' then Inr ev else Inl ''No signatures found''),
       customers_retrieve = (\<lambda>c. Inr \<lparr> customer_id = ''cus_1'', email = Some buyer \<rparr>) \<rparr>"

definition signed_post :: "string \<Rightarrow> request" where
  "signed_post sig = \<lparr> httpMethod = ''POST'', stripe_signature = Some sig, rawBody = ''{}'' \<rparr>"

definition netlify_post :: "string \<Rightarrow> netlify_event" where
  "netlify_post sig = \<lparr> nbody = Some ''{}'', nsignature = Some sig \<rparr>"


section \<open>Properties of the progress aggregator\<close>

lemma upto_window: "map (\<lambda>i. today - int i) (rev [0..<N]) = [today - int N + 1 .. today]"
proof (induction N)
  case 0
  show ?case by simp
next
  case (Suc N)
  have "[today - int (Suc N) + 1 .. today] = (today - int N) # [today - int N + 1 .. today]"
    by (subst upto_rec1) auto
  with Suc show ?case by simp
qed

lemma loop_body_points:
  "points (loop_body m h s t i a) =
     points a @ map (point_at m h s) (filter (\<lambda>d. 1 \<le> dayNumber_of m s d) [t - int i])"
  by (simp add: loop_body_def Let_def point_at_def)

lemma loop_body_consistent: "consistent a \<Longrightarrow> consistent (loop_body m h s t i a)"
  by (simp add: loop_body_def Let_def consistent_def)

lemma history_loop_points:
  "points (history_loop m h s t k a) =
     points a @ map (point_at m h s)
       (filter (\<lambda>d. 1 \<le> dayNumber_of m s d) (map (\<lambda>i. t - int i) (rev [0..<k])))"
  by (induction k arbitrary: a) (simp_all add: loop_body_points)

lemma history_loop_consistent: "consistent a \<Longrightarrow> consistent (history_loop m h s t k a)"
  by (induction k arbitrary: a) (simp_all add: loop_body_consistent)

lemma processedData_eq:
  "processedData (fetchHistory m h N s t) =
     map (point_at m h s) (filter (\<lambda>d. 1 \<le> dayNumber_of m s d) [t - int N + 1 .. t])"
  by (simp add: fetchHistory_def Let_def history_loop_points upto_window)

lemma fullDate_point_at: "map fullDate (map (point_at m h s) ds) = ds"
  by (induction ds) (simp_all add: point_at_def)

lemma stats_eq:
  "newStats (fetchHistory m h N s t) =
     (let ps = processedData (fetchHistory m h N s t) in
      \<lparr> average = (if ps = [] then 0
                   else Math_round (real_of_int (sum_list (map pvalue ps)) / real (length ps))),
        perfectDays = length (filter (\<lambda>p. pvalue p = 100) ps) \<rparr>)"
proof -
  let ?a0 = "\<lparr> points = [], totalPercentage = 0, perfectCount = 0, validDaysCount = 0 \<rparr>"
  have "consistent ?a0" by (simp add: consistent_def)
  then have "consistent (history_loop m h s t N ?a0)" by (rule history_loop_consistent)
  then show ?thesis
    by (simp add: fetchHistory_def Let_def consistent_def)
qed

lemma sample_data:
  "processedData (fetchHistory plain_midnight sample_history 7 604800000 10) =
     [\<lparr> label = ''D1'', fullDate = 7, pvalue = 0, count = 0, dayNumber = 1 \<rparr>,
      \<lparr> label = ''D2'', fullDate = 8, pvalue = 100, count = 7, dayNumber = 2 \<rparr>,
      \<lparr> label = ''D3'', fullDate = 9, pvalue = 100, count = 6, dayNumber = 3 \<rparr>,
      \<lparr> label = ''D4'', fullDate = 10, pvalue = 50, count = 3, dayNumber = 4 \<rparr>]"
  by code_simp

text \<open>
  Claim C6. For every window size \<open>N\<close> (in particular 7, 15, 30 and 90), every streak
  start and every history map, \<open>fetchHistory\<close> emits at most \<open>N\<close> points; the days of the
  points are exactly the days of the window \<open>today - (N - 1), \<dots>, today\<close> whose day
  number \<open>ceil((targetDate - streakStart) / 1 day) + 1\<close> is at least 1, from the oldest
  to the newest; and the average and the count of perfect days are taken over the
  emitted points only, so a skipped day adds nothing to the points, the average or the
  perfect days.
\<close>

theorem fetchHistory_window:
  "(let res = fetchHistory midnight historyMap N s today; ps = processedData res in
     length ps \<le> N \<and>
     map fullDate ps =
       filter (\<lambda>d. 1 \<le> Math_ceil (real_of_int (midnight d - s) / (1000 * 60 * 60 * 24)) + 1)
         [today - int N + 1 .. today] \<and>
     (\<forall>p \<in> set ps. 1 \<le> dayNumber p \<and>
        dayNumber p =
          Math_ceil (real_of_int (midnight (fullDate p) - s) / (1000 * 60 * 60 * 24)) + 1) \<and>
     sorted_wrt (<) (map fullDate ps) \<and>
     average (newStats res) =
       (if ps = [] then 0
        else Math_round (real_of_int (sum_list (map pvalue ps)) / real (length ps))) \<and>
     perfectDays (newStats res) = length (filter (\<lambda>p. pvalue p = 100) ps))"
proof -
  let ?valid = "\<lambda>d. 1 \<le> dayNumber_of midnight s d"
  let ?ds = "filter ?valid [today - int N + 1 .. today]"
  let ?res = "fetchHistory midnight historyMap N s today"
  have ps: "processedData ?res = map (point_at midnight historyMap s) ?ds"
    by (rule processedData_eq)
  have len: "length (processedData ?res) \<le> N"
  proof -
    have "length ?ds \<le> length [today - int N + 1 .. today]" by (rule length_filter_le)
    also have "\<dots> = N" by simp
    finally show ?thesis by (simp add: ps)
  qed
  have dates: "map fullDate (processedData ?res) = ?ds"
    by (simp only: ps fullDate_point_at)
  have dn: "\<forall>p \<in> set (processedData ?res). 1 \<le> dayNumber p \<and>
        dayNumber p = dayNumber_of midnight s (fullDate p)"
    by (auto simp: ps point_at_def)
  have chron: "sorted_wrt (<) (map fullDate (processedData ?res))"
    unfolding dates by (rule sorted_wrt_filter) (rule sorted_wrt_upto)
  have avg: "average (newStats ?res) =
       (if processedData ?res = [] then 0
        else Math_round (real_of_int (sum_list (map pvalue (processedData ?res))) /
               real (length (processedData ?res))))"
    by (simp add: stats_eq [of midnight historyMap N s today] Let_def)
  have perfect: "perfectDays (newStats ?res) =
       length (filter (\<lambda>p. pvalue p = 100) (processedData ?res))"
    by (simp add: stats_eq [of midnight historyMap N s today] Let_def)
  note facts = len dates [unfolded dayNumber_of_def Let_def] dn [unfolded dayNumber_of_def Let_def]
    chron avg perfect
  show ?thesis
    unfolding Let_def by (intro conjI) (rule facts)+
qed

theorem fetchHistory_window_witness:
  "7 \<in> set RANGES \<and>
   \<lparr> label = ''D1'', fullDate = 7, pvalue = 0, count = 0, dayNumber = 1 \<rparr>
     \<in> set (processedData (fetchHistory plain_midnight sample_history 7 604800000 10)) \<and>
   (1::int) \<le> dayNumber \<lparr> label = ''D1'', fullDate = 7, pvalue = 0, count = 0, dayNumber = 1 \<rparr> \<and>
   length (processedData (fetchHistory plain_midnight sample_history 7 604800000 10)) \<le> 7 \<and>
   map fullDate (processedData (fetchHistory plain_midnight sample_history 7 604800000 10))
     = [7, 8, 9, 10]"
proof -
  let ?ps = "processedData (fetchHistory plain_midnight sample_history 7 604800000 10)"
  let ?p = "\<lparr> label = ''D1'', fullDate = 7, pvalue = 0, count = 0, dayNumber = 1 \<rparr>"
  have mem: "?p \<in> set ?ps" by (simp add: sample_data)
  note window = fetchHistory_window [of plain_midnight sample_history 7 604800000 10,
      unfolded Let_def]
  have all: "length ?ps \<le> 7 \<and> (\<forall>p \<in> set ?ps. 1 \<le> dayNumber p)"
    using window by blast
  from all mem have "1 \<le> dayNumber ?p" by blast
  moreover have "map fullDate ?ps = [7, 8, 9, 10]" by (simp add: sample_data)
  moreover have "7 \<in> set RANGES" by (simp add: RANGES_def)
  ultimately show ?thesis using all mem by simp
qed

lemma Math_round_nonneg: "0 \<le> x \<Longrightarrow> 0 \<le> Math_round x"
  by (simp add: Math_round_def)

lemma round_half_even_nonneg: "0 \<le> n \<Longrightarrow> 0 < d \<Longrightarrow> 0 \<le> round_half_even n d"
  by (simp add: round_half_even_def Let_def pos_imp_zdiv_nonneg_iff)

lemma nearest_nonneg: "0 \<le> n \<Longrightarrow> 0 < d \<Longrightarrow> 0 \<le> fst (nearest n d)"
  by (simp add: nearest_def Let_def round_half_even_nonneg)

lemma dval_nonneg: "0 \<le> fst x \<Longrightarrow> 0 \<le> dval x"
  by (cases x) (simp add: dval_def)

lemma ddiv_nonneg: "0 \<le> a \<Longrightarrow> 0 < b \<Longrightarrow> 0 \<le> fst (ddiv a b)"
  by (simp add: ddiv_def nearest_nonneg)

lemma dmul_nonneg: "0 \<le> fst x \<Longrightarrow> 0 \<le> k \<Longrightarrow> 0 \<le> fst (dmul x k)"
  by (cases x) (simp add: dmul_def nearest_nonneg)

lemma binary64_percentage_nonneg:
  assumes "0 \<le> c" "0 < t"
  shows "0 \<le> binary64_percentage c t"
proof -
  have "0 \<le> fst (dmul (ddiv c t) 100)"
    using assms by (intro dmul_nonneg ddiv_nonneg) simp_all
  then have "0 \<le> Math_round (dval (dmul (ddiv c t) 100))"
    by (intro Math_round_nonneg dval_nonneg)
  then show ?thesis by (simp add: binary64_percentage_def)
qed

lemma binary64_percentage_le: "binary64_percentage c t \<le> 100"
  by (simp add: binary64_percentage_def)

lemma value_of_binary64: "value_of r = binary64_percentage (count_of r) (totalTasks_of r)"
  by (simp add: value_of_def binary64_percentage_def Let_def)

lemma count_of_nonneg: "(\<And>h. r = Some h \<Longrightarrow> wf_record h) \<Longrightarrow> 0 \<le> count_of r"
  by (auto simp: count_of_def wf_record_def split: option.splits)

lemma totalTasks_of_pos: "(\<And>h. r = Some h \<Longrightarrow> wf_record h) \<Longrightarrow> 0 < totalTasks_of r"
  by (auto simp: totalTasks_of_def wf_record_def split: option.splits)

lemma value_of_nonneg:
  assumes "\<And>h. r = Some h \<Longrightarrow> wf_record h"
  shows "0 \<le> value_of r"
  unfolding value_of_binary64
  using assms by (intro binary64_percentage_nonneg count_of_nonneg totalTasks_of_pos)

lemma point_in_data:
  assumes "p \<in> set (processedData (fetchHistory m h N s t))"
  shows "pvalue p = value_of (h (fullDate p)) \<and> count p = count_of (h (fullDate p))"
  using assms by (auto simp: processedData_eq point_at_def)

lemma binary64_percentage_0_6: "binary64_percentage 0 6 = 0"
  by code_simp

lemma binary64_percentage_3_6: "binary64_percentage 3 6 = 50"
  by code_simp

lemma binary64_percentage_6_6: "binary64_percentage 6 6 = 100"
  by code_simp

lemma binary64_percentage_23_40: "binary64_percentage 23 40 = 57"
  by code_simp

lemma spec_percentage_23_40: "spec_percentage 23 40 = 58"
  by (simp add: spec_percentage_def Math_round_def)

lemma exact_for_six:
  assumes "c \<in> {0..6}"
  shows "binary64_percentage c 6 = spec_percentage c 6"
proof -
  from assms consider "c = 0" | "c = 1" | "c = 2" | "c = 3" | "c = 4" | "c = 5" | "c = 6"
    by fastforce
  then show ?thesis
  proof cases
    case 1 then show ?thesis by (simp only:) code_simp
  next
    case 2 then show ?thesis by (simp only:) code_simp
  next
    case 3 then show ?thesis by (simp only:) code_simp
  next
    case 4 then show ?thesis by (simp only:) code_simp
  next
    case 5 then show ?thesis by (simp only:) code_simp
  next
    case 6 then show ?thesis by (simp only:) code_simp
  next
    case 7 then show ?thesis by (simp only:) code_simp
  qed
qed

lemma sample_history_wf: "sample_history d = Some r \<Longrightarrow> wf_record r"
  by (auto simp: sample_history_def wf_record_def split: if_splits)

lemma float_data:
  "processedData (fetchHistory plain_midnight float_history 1 864000000 10) =
     [\<lparr> label = ''D1'', fullDate = 10, pvalue = 57, count = 23, dayNumber = 1 \<rparr>]"
  by code_simp


text \<open>
  Claim C7, amended. For each emitted day point, the value is
  \<open>min(round(completedCount / totalHabits * 100), 100)\<close> with the division and the
  multiplication carried out in binary64, as the program does, where an absent record
  counts as \<open>completedCount = 0\<close> and \<open>totalHabits = 6\<close>. The value is at most 100 for
  every record, also when \<open>completedCount > totalHabits\<close>, and at least 0 when the stored
  counts of the record are not negative. 0 of 6 gives 0, 3 of 6 gives 50, 6 of 6 gives
  100, and an emitted day with 6 of 6 adds one to the perfect days. For the denominator
  6 and the counts 0 to 6 the value is the one of exact arithmetic.
\<close>

theorem day_point_value:
  "(\<forall>p \<in> set (processedData (fetchHistory midnight historyMap N s today)).
      (historyMap (fullDate p) = None \<longrightarrow> count p = 0 \<and> pvalue p = binary64_percentage 0 6) \<and>
      (\<forall>r c t. historyMap (fullDate p) = Some r \<and> completed_count r = Some c \<and>
                total_habits r = Some t \<and> t \<noteq> 0 \<longrightarrow>
                count p = c \<and> pvalue p = binary64_percentage c t) \<and>
      pvalue p = binary64_percentage (count_of (historyMap (fullDate p)))
                   (totalTasks_of (historyMap (fullDate p))) \<and>
      pvalue p \<le> 100 \<and>
      ((\<forall>r. historyMap (fullDate p) = Some r \<longrightarrow> wf_record r) \<longrightarrow> 0 \<le> pvalue p)) \<and>
   binary64_percentage 0 6 = 0 \<and> binary64_percentage 3 6 = 50 \<and>
   binary64_percentage 6 6 = 100 \<and>
   (\<forall>c \<in> {0..6}. binary64_percentage c 6 = spec_percentage c 6) \<and>
   (\<forall>i r a. 1 \<le> dayNumber_of midnight s (today - int i) \<and>
            historyMap (today - int i) = Some r \<and>
            completed_count r = Some 6 \<and> total_habits r = Some 6 \<longrightarrow>
      pvalue (last (points (loop_body midnight historyMap s today i a))) = 100 \<and>
      perfectCount (loop_body midnight historyMap s today i a) = perfectCount a + 1)"
proof (intro conjI ballI allI impI)
  fix p assume p: "p \<in> set (processedData (fetchHistory midnight historyMap N s today))"
  note pd = point_in_data [OF p]
  show "pvalue p = binary64_percentage (count_of (historyMap (fullDate p)))
                        (totalTasks_of (historyMap (fullDate p)))"
    using pd by (simp add: value_of_binary64)
  show "pvalue p \<le> 100" using pd by (simp add: value_of_binary64 binary64_percentage_le)
  { assume "\<forall>r. historyMap (fullDate p) = Some r \<longrightarrow> wf_record r"
    then show "0 \<le> pvalue p" using pd value_of_nonneg [of "historyMap (fullDate p)"] by simp }
  { assume "historyMap (fullDate p) = None"
    then show "count p = 0" "pvalue p = binary64_percentage 0 6"
      using pd by (simp_all add: value_of_binary64 count_of_def totalTasks_of_def) }
  { fix r c t
    assume "historyMap (fullDate p) = Some r \<and> completed_count r = Some c \<and>
                     total_habits r = Some t \<and> t \<noteq> 0"
    then show "count p = c" "pvalue p = binary64_percentage c t"
      using pd by (simp_all add: value_of_binary64 count_of_def totalTasks_of_def) }
next
  show "binary64_percentage 0 6 = 0" by (rule binary64_percentage_0_6)
  show "binary64_percentage 3 6 = 50" by (rule binary64_percentage_3_6)
  show "binary64_percentage 6 6 = 100" by (rule binary64_percentage_6_6)
next
  fix c :: int assume "c \<in> {0..6}"
  then show "binary64_percentage c 6 = spec_percentage c 6" by (rule exact_for_six)
next
  fix i r a
  assume h: "1 \<le> dayNumber_of midnight s (today - int i) \<and>
                  historyMap (today - int i) = Some r \<and>
                  completed_count r = Some 6 \<and> total_habits r = Some 6"
  then have v: "value_of (historyMap (today - int i)) = 100"
    by (simp add: value_of_binary64 count_of_def totalTasks_of_def binary64_percentage_6_6)
  show "pvalue (last (points (loop_body midnight historyMap s today i a))) = 100"
    using h v by (simp add: loop_body_def Let_def)
  show "perfectCount (loop_body midnight historyMap s today i a) = perfectCount a + 1"
    using h v by (simp add: loop_body_def Let_def)
qed

theorem day_point_value_witness:
  "\<lparr> label = ''D4'', fullDate = 10, pvalue = 50, count = 3, dayNumber = 4 \<rparr>
     \<in> set (processedData (fetchHistory plain_midnight sample_history 7 604800000 10)) \<and>
   sample_history 10 =
     Some \<lparr> date = 10, percentage = 50, completed_count = Some 3, total_habits = Some 6 \<rparr> \<and>
   wf_record \<lparr> date = 10, percentage = 50, completed_count = Some 3, total_habits = Some 6 \<rparr> \<and>
   pvalue \<lparr> label = ''D4'', fullDate = 10, pvalue = 50, count = 3, dayNumber = 4 \<rparr>
     = binary64_percentage 3 6 \<and>
   binary64_percentage 3 6 = 50 \<and>
   0 \<le> pvalue \<lparr> label = ''D4'', fullDate = 10, pvalue = 50, count = 3, dayNumber = 4 \<rparr> \<and>
   (3::int) \<in> {0..6} \<and> binary64_percentage 3 6 = spec_percentage 3 6 \<and>
   1 \<le> dayNumber_of plain_midnight 604800000 (10 - int 1) \<and>
   sample_history (10 - int 1) =
     Some \<lparr> date = 9, percentage = 100, completed_count = Some 6, total_habits = Some 6 \<rparr> \<and>
   perfectCount (loop_body plain_midnight sample_history 604800000 10 1
     \<lparr> points = [], totalPercentage = 0, perfectCount = 0, validDaysCount = 0 \<rparr>) = 0 + 1"
proof -
  let ?ps = "processedData (fetchHistory plain_midnight sample_history 7 604800000 10)"
  let ?p = "\<lparr> label = ''D4'', fullDate = 10, pvalue = 50, count = 3, dayNumber = 4 \<rparr>"
  let ?r10 = "\<lparr> date = 10, percentage = 50, completed_count = Some 3, total_habits = Some 6 \<rparr>"
  let ?r9 = "\<lparr> date = 9, percentage = 100, completed_count = Some 6, total_habits = Some 6 \<rparr>"
  let ?a0 = "\<lparr> points = [], totalPercentage = 0, perfectCount = 0, validDaysCount = 0 \<rparr>"
  note T = day_point_value [where historyMap = sample_history and midnight = plain_midnight
      and N = 7 and s = 604800000 and today = 10]
  have mem: "?p \<in> set ?ps" by (simp add: sample_data)
  have r10: "sample_history (fullDate ?p) = Some ?r10 \<and> completed_count ?r10 = Some 3 \<and>
       total_habits ?r10 = Some 6 \<and> (6::int) \<noteq> 0"
    by (simp add: sample_history_def)
  have s10: "sample_history 10 = Some ?r10" by (simp add: sample_history_def)
  have wf10: "wf_record ?r10" by (simp add: wf_record_def)
  have wf: "\<forall>r. sample_history (fullDate ?p) = Some r \<longrightarrow> wf_record r"
    by (blast intro: sample_history_wf)
  have dn: "1 \<le> dayNumber_of plain_midnight 604800000 (10 - int 1)"
    by (simp add: dayNumber_of_def plain_midnight_def Math_ceil_def)
  have r9: "sample_history (10 - int 1) = Some ?r9" by (simp add: sample_history_def)
  have v: "pvalue ?p = binary64_percentage 3 6"
    using T mem r10 by blast
  have nn: "0 \<le> pvalue ?p" using T mem wf by blast
  have fifty: "binary64_percentage 3 6 = 50" using T by blast
  have three: "(3::int) \<in> {0..6}" by simp
  with T have ex: "binary64_percentage 3 6 = spec_percentage 3 6" by blast
  have "1 \<le> dayNumber_of plain_midnight 604800000 (10 - int 1) \<and>
        sample_history (10 - int 1) = Some ?r9 \<and>
        completed_count ?r9 = Some 6 \<and> total_habits ?r9 = Some 6"
    using dn r9 by simp
  with T have pc: "perfectCount (loop_body plain_midnight sample_history 604800000 10 1 ?a0)
      = perfectCount ?a0 + 1"
    by blast
  then have pc': "perfectCount (loop_body plain_midnight sample_history 604800000 10 1 ?a0)
      = 0 + 1" by simp
  show ?thesis
    by (intro conjI) (rule mem s10 wf10 v fifty nn three ex dn r9 pc')+
qed

text \<open>
  With the expression of the claim taken in exact arithmetic the claim fails: for 23 of
  40 habits the quotient \<open>23 / 40\<close> is rounded down in binary64, the product by 100 is
  \<open>57.49999999999999\<close> and the point has the value 57, where \<open>23 / 40 \<cdot> 100 = 57.5\<close>
  rounds to 58.
\<close>

theorem day_value_not_exact_counterexample:
  "processedData (fetchHistory plain_midnight float_history 1 864000000 10) =
     [\<lparr> label = ''D1'', fullDate = 10, pvalue = 57, count = 23, dayNumber = 1 \<rparr>] \<and>
   float_history 10 =
     Some \<lparr> date = 10, percentage = 58, completed_count = Some 23, total_habits = Some 40 \<rparr> \<and>
   spec_percentage 23 40 = 58"
proof -
  have "float_history 10 =
     Some \<lparr> date = 10, percentage = 58, completed_count = Some 23, total_habits = Some 40 \<rparr>"
    by (simp add: float_history_def)
  then show ?thesis using float_data spec_percentage_23_40 by blast
qed

text \<open>
  Claim C10. The denominator of the percentage of a day is never zero: for an absent
  record, and for a record whose stored \<open>total_habits\<close> is undefined or 0, it is the
  default 6 (\<open>total_habits || 6\<close>); every emitted point has its value from the division
  of its count by that denominator, which is not zero.
\<close>

theorem denominator_never_zero:
  "totalTasks_of r \<noteq> 0 \<and>
   totalTasks_of None = 6 \<and>
   (total_habits h = None \<or> total_habits h = Some 0 \<longrightarrow> totalTasks_of (Some h) = 6) \<and>
   (\<forall>p \<in> set (processedData (fetchHistory midnight historyMap N s today)).
      totalTasks_of (historyMap (fullDate p)) \<noteq> 0 \<and>
      pvalue p = min (Math_round (dval (dmul
                   (ddiv (count p) (totalTasks_of (historyMap (fullDate p)))) 100))) 100)"
proof -
  have nz: "totalTasks_of r' \<noteq> 0" for r'
    by (simp add: totalTasks_of_def split: option.splits)
  have dflt: "total_habits h = None \<or> total_habits h = Some 0 \<longrightarrow> totalTasks_of (Some h) = 6"
    by (auto simp: totalTasks_of_def)
  have pts: "\<forall>p \<in> set (processedData (fetchHistory midnight historyMap N s today)).
      totalTasks_of (historyMap (fullDate p)) \<noteq> 0 \<and>
      pvalue p = min (Math_round (dval (dmul
                   (ddiv (count p) (totalTasks_of (historyMap (fullDate p)))) 100))) 100"
    using nz by (auto dest!: point_in_data simp: value_of_def Let_def)
  show ?thesis using nz dflt pts by (simp add: totalTasks_of_def)
qed

theorem denominator_never_zero_witness:
  "total_habits \<lparr> date = 8, percentage = 0, completed_count = Some 7, total_habits = Some 0 \<rparr>
     = Some 0 \<and>
   totalTasks_of
     (Some \<lparr> date = 8, percentage = 0, completed_count = Some 7, total_habits = Some 0 \<rparr>) = 6 \<and>
   \<lparr> label = ''D2'', fullDate = 8, pvalue = 100, count = 7, dayNumber = 2 \<rparr>
     \<in> set (processedData (fetchHistory plain_midnight sample_history 7 604800000 10)) \<and>
   totalTasks_of (sample_history 8) \<noteq> 0"
proof -
  let ?h = "\<lparr> date = 8, percentage = 0, completed_count = Some 7, total_habits = Some 0 \<rparr>"
  let ?p = "\<lparr> label = ''D2'', fullDate = 8, pvalue = 100, count = 7, dayNumber = 2 \<rparr>"
  let ?ps = "processedData (fetchHistory plain_midnight sample_history 7 604800000 10)"
  note T = denominator_never_zero [where h = ?h and historyMap = sample_history
      and midnight = plain_midnight and N = 7 and s = 604800000 and today = 10]
  have z: "total_habits ?h = Some 0" by simp
  with T have six: "totalTasks_of (Some ?h) = 6" by blast
  have mem: "?p \<in> set ?ps" by (simp add: sample_data)
  with T have "totalTasks_of (sample_history (fullDate ?p)) \<noteq> 0" by blast
  then show ?thesis using z six mem by simp
qed


section \<open>Properties of the trigger insight\<close>

text \<open>
  Claim C9. For an empty list of trigger logs, \<open>processTriggerInsights\<close> yields the
  zero-value result: no logs, no top emotion, no top context, an empty ranking. The
  function is total, so it does not fail.
\<close>

theorem empty_window_insight:
  "processTriggerInsights [] =
     \<lparr> totalLogs = 0, topEmotion = None, topContext = None, ranking = [] \<rparr>"
  by (simp add: processTriggerInsights_def)



















































section \<open>Properties of the subscription reconciler\<close>

lemma updateUserSubscriptionStatus_eq: "updateUserSubscriptionStatus = syncSubscription"
  by (intro ext) (simp add: updateUserSubscriptionStatus_def syncSubscription_def)

lemma written_apply:
  "written e em st cid f =
     (if f = ''stripe_customer_id'' then map_option Str (truthy cid)
      else if f = ''email'' then Some (Str em)
      else if f = ''updated_at'' then Some (Timestamp (now e))
      else if f = ''subscription_status'' then Some (Str st)
      else None)"
  by (simp add: written_def updateData_of_def resolve_def Let_def split: option.splits)

lemma sync_known:
  assumes "quiet e" "accounts (auth w) em = Some r"
  shows "syncSubscription e em st cid w =
    (True, w\<lparr> users := (users w)(uid r \<mapsto>
       (case users w (uid r) of None \<Rightarrow> written e em st cid | Some d \<Rightarrow> d ++ written e em st cid)) \<rparr>)"
  unfolding written_def using assms
  by (simp add: syncSubscription_def getUserByEmail_def set_merge_def quiet_def Let_def)

lemma sync_new:
  assumes "quiet e" "accounts (auth w) em = None"
  shows "syncSubscription e em st cid w =
    (True, w\<lparr> auth := (auth w)\<lparr> accounts := (accounts (auth w))(em \<mapsto> \<lparr> uid = next_uid (auth w), emailVerified = True \<rparr>),
                           next_uid := Suc (next_uid (auth w)) \<rparr>,
             users := (users w)(next_uid (auth w) \<mapsto>
       (case users w (next_uid (auth w)) of None \<Rightarrow> written e em st cid | Some d \<Rightarrow> d ++ written e em st cid)) \<rparr>)"
  unfolding written_def using assms
  by (simp add: syncSubscription_def getUserByEmail_def createUser_def set_merge_def quiet_def Let_def)

lemma written_over: "(d ++ written e1 em st cid) ++ written e2 em st cid = d ++ written e2 em st cid"
  by (rule ext) (simp add: map_add_def written_apply split: option.splits)

lemma written_over': "written e1 em st cid ++ written e2 em st cid = written e2 em st cid"
  by (rule ext) (simp add: map_add_def written_apply split: option.splits)

lemma written_same_time: "now e1 = now e2 \<Longrightarrow> written e1 em st cid = written e2 em st cid"
  by (rule ext) (simp add: written_apply)

lemma sync_twice:
  assumes "quiet e1" "quiet e2"
  shows "snd (syncSubscription e2 em st cid (snd (syncSubscription e1 em st cid w))) =
         snd (syncSubscription e2 em st cid w)"
proof (cases "accounts (auth w) em")
  case None
  show ?thesis
    by (simp add: sync_new [OF assms(1) None] sync_new [OF assms(2) None] sync_known [OF assms(2)]
        written_over written_over' None split: option.splits)
next
  case (Some r)
  show ?thesis
    by (simp add: sync_known [OF assms(1) Some] sync_known [OF assms(2) Some] sync_known [OF assms(2)]
        written_over written_over' Some split: option.splits)
qed

lemma sync_auth_twice:
  assumes "quiet e1" "quiet e2"
  shows "auth (snd (syncSubscription e2 em st cid (snd (syncSubscription e1 em st cid w)))) =
         auth (snd (syncSubscription e1 em st cid w))"
proof (cases "accounts (auth w) em")
  case None
  show ?thesis
    by (simp add: sync_new [OF assms(1) None] sync_known [OF assms(2)])
next
  case (Some r)
  show ?thesis
    by (simp add: sync_known [OF assms(1) Some] sync_known [OF assms(2)] Some)
qed

lemma sync_same_time:
  assumes "quiet e1" "quiet e2" "now e1 = now e2"
  shows "syncSubscription e2 em st cid w = syncSubscription e1 em st cid w"
proof -
  have eq: "written e2 em st cid = written e1 em st cid"
    using assms(3) by (intro written_same_time) simp
  show ?thesis
  proof (cases "accounts (auth w) em")
    case None
    show ?thesis
      unfolding sync_new [OF assms(1) None] sync_new [OF assms(2) None] eq ..
  next
    case (Some r)
    show ?thesis
      unfolding sync_known [OF assms(1) Some] sync_known [OF assms(2) Some] eq ..
  qed
qed

lemma sync_succeeds: "quiet e \<Longrightarrow> fst (syncSubscription e em st cid w)"
  by (cases "accounts (auth w) em") (simp_all add: sync_new sync_known)

lemma sync_field:
  assumes "quiet e"
  shows "field (snd (syncSubscription e em st cid w)) u f =
     (if u = target_uid w em
      then (case written e em st cid f of Some v \<Rightarrow> Some v | None \<Rightarrow> field w u f)
      else field w u f)"
proof (cases "accounts (auth w) em")
  case None
  show ?thesis
    by (simp add: sync_new [OF assms None] None field_def target_uid_def map_add_def
        split: option.splits)
next
  case (Some r)
  show ?thesis
    by (simp add: sync_known [OF assms Some] Some field_def target_uid_def map_add_def
        split: option.splits)
qed

lemma sync_target:
  assumes "quiet e"
  shows "accounts (auth (snd (syncSubscription e em st cid w))) em =
     Some \<lparr> uid = target_uid w em, emailVerified =
        (case accounts (auth w) em of Some r \<Rightarrow> emailVerified r | None \<Rightarrow> True) \<rparr>"
proof (cases "accounts (auth w) em")
  case None
  show ?thesis
    by (simp add: sync_new [OF assms None] None target_uid_def)
next
  case (Some r)
  show ?thesis
    by (simp add: sync_known [OF assms Some] Some target_uid_def)
qed

lemma sync_status:
  assumes "quiet e"
  shows "status_of (snd (syncSubscription e em st cid w)) em = Some (Str st)"
  by (simp add: status_of_def sync_target [OF assms] sync_field [OF assms] written_apply)

lemma set_merge_shape:
  "set_merge e docs u (updateData_of em st cid) = Inr docs' \<Longrightarrow>
     docs' = docs(u \<mapsto> (case docs u of None \<Rightarrow> written e em st cid
                                | Some d \<Rightarrow> d ++ written e em st cid))"
  by (auto simp: set_merge_def Let_def written_def split: option.splits)

lemma sync_shape:
  "snd (syncSubscription e em st cid w) = w \<or>
   (\<exists>a'. snd (syncSubscription e em st cid w) = w\<lparr> auth := a' \<rparr>) \<or>
   (\<exists>a'. snd (syncSubscription e em st cid w) =
      w\<lparr> auth := a',
         users := (users w)(target_uid w em \<mapsto>
           (case users w (target_uid w em) of
              None \<Rightarrow> written e em st cid
            | Some d \<Rightarrow> d ++ written e em st cid)) \<rparr>)"
proof (cases "getUserByEmail e (auth w) em")
  case (Inr r)
  then have t: "target_uid w em = uid r"
    by (auto simp: getUserByEmail_def target_uid_def split: option.splits)
  show ?thesis
  proof (cases "set_merge e (users w) (uid r) (updateData_of em st cid)")
    case (Inl err)
    with Inr show ?thesis by (simp add: syncSubscription_def)
  next
    case (Inr docs)
    from set_merge_shape [OF this] \<open>getUserByEmail e (auth w) em = Inr r\<close> Inr
    have "snd (syncSubscription e em st cid w) =
      w\<lparr> auth := auth w,
         users := (users w)(target_uid w em \<mapsto>
           (case users w (target_uid w em) of
              None \<Rightarrow> written e em st cid
            | Some d \<Rightarrow> d ++ written e em st cid)) \<rparr>"
      by (simp add: syncSubscription_def t)
    then show ?thesis by blast
  qed
next
  case (Inl code)
  show ?thesis
  proof (cases "code = ''auth/user-not-found''")
    case False
    with Inl show ?thesis by (simp add: syncSubscription_def)
  next
    case True
    show ?thesis
    proof (cases "createUser e (auth w) em True")
      case (Inl err)
      with \<open>getUserByEmail e (auth w) em = Inl code\<close> True show ?thesis
        by (simp add: syncSubscription_def)
    next
      case (Inr pair)
      obtain newUser a' where pair: "pair = (newUser, a')" by (cases pair)
      from Inr pair have none: "accounts (auth w) em = None" and u: "uid newUser = next_uid (auth w)"
        by (auto simp: createUser_def Let_def split: option.splits)
      then have t: "target_uid w em = uid newUser" by (simp add: target_uid_def)
      show ?thesis
      proof (cases "set_merge e (users w) (uid newUser) (updateData_of em st cid)")
        case (Inl err)
        with \<open>getUserByEmail e (auth w) em = Inl code\<close> True Inr pair
        have "snd (syncSubscription e em st cid w) = w\<lparr> auth := a' \<rparr>"
          by (simp add: syncSubscription_def)
        then show ?thesis by blast
      next
        case (Inr docs)
        from set_merge_shape [OF this] \<open>getUserByEmail e (auth w) em = Inl code\<close> True
          \<open>createUser e (auth w) em True = Inr pair\<close> pair Inr
        have "snd (syncSubscription e em st cid w) =
          w\<lparr> auth := a',
             users := (users w)(target_uid w em \<mapsto>
               (case users w (target_uid w em) of
                  None \<Rightarrow> written e em st cid
                | Some d \<Rightarrow> d ++ written e em st cid)) \<rparr>"
          by (simp add: syncSubscription_def t)
        then show ?thesis by blast
      qed
    qed
  qed
qed

lemma merged_field:
  "(case (case docs u of None \<Rightarrow> written e em st cid | Some d \<Rightarrow> d ++ written e em st cid) f of
      None \<Rightarrow> None | Some v \<Rightarrow> Some v) =
   (case written e em st cid f of Some v \<Rightarrow> Some v
    | None \<Rightarrow> (case docs u of None \<Rightarrow> None | Some d \<Rightarrow> d f))"
  by (simp add: map_add_def split: option.splits)

lemma written_outside:
  "f \<notin> written_fields \<or> (f = ''stripe_customer_id'' \<and> truthy cid = None) \<Longrightarrow>
     written e em st cid f = None"
  by (auto simp: written_apply written_fields_def)

lemma sync_frame:
  assumes "f \<notin> written_fields \<or> (f = ''stripe_customer_id'' \<and> truthy cid = None)"
  shows "field (snd (syncSubscription e em st cid w)) u f = field w u f"
proof -
  note wo = written_outside [OF assms, of e em st]
  from sync_shape [of e em st cid w] show ?thesis
  proof (elim disjE exE)
    assume "snd (syncSubscription e em st cid w) = w"
    then show ?thesis by simp
  next
    fix a' assume "snd (syncSubscription e em st cid w) = w\<lparr> auth := a' \<rparr>"
    then show ?thesis by (simp add: field_def)
  next
    fix a'
    assume "snd (syncSubscription e em st cid w) =
      w\<lparr> auth := a',
         users := (users w)(target_uid w em \<mapsto>
           (case users w (target_uid w em) of
              None \<Rightarrow> written e em st cid
            | Some d \<Rightarrow> d ++ written e em st cid)) \<rparr>"
    then show ?thesis
      by (simp add: field_def wo map_add_def split: option.splits)
  qed
qed

lemma sync_other_docs:
  assumes "u \<noteq> target_uid w em"
  shows "users (snd (syncSubscription e em st cid w)) u = users w u"
  using sync_shape [of e em st cid w] assms by auto


lemma target_uid_after:
  assumes "quiet e"
  shows "target_uid (snd (syncSubscription e em st cid w)) em = target_uid w em"
  by (simp add: target_uid_def [of "snd (syncSubscription e em st cid w)"] sync_target [OF assms])

lemma sync_twice_fields:
  assumes "quiet e1" "quiet e2" "f \<noteq> ''updated_at''"
  shows "field (snd (syncSubscription e2 em st cid (snd (syncSubscription e1 em st cid w)))) u f =
         field (snd (syncSubscription e1 em st cid w)) u f"
  using assms(3)
  by (simp add: sync_field [OF assms(2)] sync_field [OF assms(1)] target_uid_after [OF assms(1)]
      written_apply split: option.splits)

lemma sync_twice_stamp:
  assumes "quiet e1" "quiet e2"
  shows "field (snd (syncSubscription e2 em st cid (snd (syncSubscription e1 em st cid w))))
           (target_uid w em) ''updated_at'' = Some (Timestamp (now e2))"
  by (simp add: sync_field [OF assms(2)] target_uid_after [OF assms(1)] written_apply)

text \<open>
  Claim C1, amended. For every email, status and optional customerId, when the services
  reject nothing, applying \<open>syncSubscription\<close> (or \<open>updateUserSubscriptionStatus\<close>)
  twice with the same arguments succeeds both times and leaves the same identities as
  applying it once, so no second identity is provisioned, and the same user documents
  except for the field \<open>updated_at\<close>, which holds the server time of the second
  application. The final state is the state of a single application made at the time of
  the second one; it is the state of the first application when both get the same server
  time.
\<close>

theorem sync_twice_is_once_later:
  assumes "quiet e1" and "quiet e2"
  shows "(let once = syncSubscription e1 em st cid w;
              twice = syncSubscription e2 em st cid (snd once)
          in fst once \<and> fst twice \<and>
             snd twice = snd (syncSubscription e2 em st cid w) \<and>
             auth (snd twice) = auth (snd once) \<and>
             (\<forall>u f. f \<noteq> ''updated_at'' \<longrightarrow> field (snd twice) u f = field (snd once) u f) \<and>
             field (snd twice) (target_uid w em) ''updated_at'' = Some (Timestamp (now e2)) \<and>
             (now e2 = now e1 \<longrightarrow> twice = once)) \<and>
         (let once = updateUserSubscriptionStatus e1 em st cid w;
              twice = updateUserSubscriptionStatus e2 em st cid (snd once)
          in fst once \<and> fst twice \<and>
             snd twice = snd (updateUserSubscriptionStatus e2 em st cid w) \<and>
             auth (snd twice) = auth (snd once) \<and>
             (\<forall>u f. f \<noteq> ''updated_at'' \<longrightarrow> field (snd twice) u f = field (snd once) u f) \<and>
             field (snd twice) (target_uid w em) ''updated_at'' = Some (Timestamp (now e2)) \<and>
             (now e2 = now e1 \<longrightarrow> twice = once))"
proof -
  let ?once = "syncSubscription e1 em st cid w"
  let ?twice = "syncSubscription e2 em st cid (snd ?once)"
  have 1: "fst ?once" "fst ?twice" using assms by (simp_all add: sync_succeeds)
  have 2: "snd ?twice = snd (syncSubscription e2 em st cid w)"
    using assms by (rule sync_twice)
  have 3: "auth (snd ?twice) = auth (snd ?once)" using assms by (rule sync_auth_twice)
  have 4: "\<forall>u f. f \<noteq> ''updated_at'' \<longrightarrow> field (snd ?twice) u f = field (snd ?once) u f"
    using assms by (simp add: sync_twice_fields)
  have 5: "field (snd ?twice) (target_uid w em) ''updated_at'' = Some (Timestamp (now e2))"
    using assms by (rule sync_twice_stamp)
  have 6: "now e2 = now e1 \<longrightarrow> ?twice = ?once"
  proof
    assume t: "now e2 = now e1"
    have "snd ?twice = snd ?once"
      unfolding 2 using sync_same_time [OF assms(1) assms(2) t [symmetric]] by simp
    with 1 show "?twice = ?once" by (simp add: prod_eq_iff)
  qed
  have main: "fst ?once \<and> fst ?twice \<and>
             snd ?twice = snd (syncSubscription e2 em st cid w) \<and>
             auth (snd ?twice) = auth (snd ?once) \<and>
             (\<forall>u f. f \<noteq> ''updated_at'' \<longrightarrow> field (snd ?twice) u f = field (snd ?once) u f) \<and>
             field (snd ?twice) (target_uid w em) ''updated_at'' = Some (Timestamp (now e2)) \<and>
             (now e2 = now e1 \<longrightarrow> ?twice = ?once)"
    by (intro conjI) (rule 1 2 3 4 5 6)+
  show ?thesis
    unfolding updateUserSubscriptionStatus_eq Let_def by (rule conjI [OF main main])
qed

theorem sync_twice_is_once_later_witness:
  "quiet (calm 1) \<and> quiet (calm 2) \<and>
   snd (syncSubscription (calm 2) buyer ''active'' (Some ''cus_1'')
         (snd (syncSubscription (calm 1) buyer ''active'' (Some ''cus_1'') empty_world))) =
   snd (syncSubscription (calm 2) buyer ''active'' (Some ''cus_1'') empty_world) \<and>
   field (snd (syncSubscription (calm 2) buyer ''active'' (Some ''cus_1'')
         (snd (syncSubscription (calm 1) buyer ''active'' (Some ''cus_1'') empty_world))))
     0 ''subscription_status'' =
   field (snd (syncSubscription (calm 1) buyer ''active'' (Some ''cus_1'') empty_world))
     0 ''subscription_status''"
proof -
  have q1: "quiet (calm 1)" and q2: "quiet (calm 2)" by (simp_all add: quiet_def calm_def)
  note T = sync_twice_is_once_later [OF q1 q2, of buyer "''active''" "Some ''cus_1''" empty_world,
      unfolded Let_def]
  have ne: "''subscription_status'' \<noteq> ''updated_at''" by simp
  note T1 = T [THEN conjunct1]
  have a: "snd (syncSubscription (calm 2) buyer ''active'' (Some ''cus_1'')
         (snd (syncSubscription (calm 1) buyer ''active'' (Some ''cus_1'') empty_world))) =
       snd (syncSubscription (calm 2) buyer ''active'' (Some ''cus_1'') empty_world)"
    using T1 by (elim conjE)
  have "\<forall>u f. f \<noteq> ''updated_at'' \<longrightarrow>
     field (snd (syncSubscription (calm 2) buyer ''active'' (Some ''cus_1'')
         (snd (syncSubscription (calm 1) buyer ''active'' (Some ''cus_1'') empty_world)))) u f =
     field (snd (syncSubscription (calm 1) buyer ''active'' (Some ''cus_1'') empty_world)) u f"
    using T1 by (elim conjE)
  then have b:
    "field (snd (syncSubscription (calm 2) buyer ''active'' (Some ''cus_1'')
         (snd (syncSubscription (calm 1) buyer ''active'' (Some ''cus_1'') empty_world))))
     0 ''subscription_status'' =
     field (snd (syncSubscription (calm 1) buyer ''active'' (Some ''cus_1'') empty_world))
     0 ''subscription_status''"
    using ne by (elim allE impE)
  show ?thesis by (intro conjI) (rule q1 q2 a b)+
qed

text \<open>
  As the claim is stated, with the whole user document in the compared state, it fails
  when the server time has moved on between the two applications: \<open>updated_at\<close> differs.
\<close>

lemma sample_once_stamp:
  "field (snd (syncSubscription (calm 1) buyer ''active'' None empty_world)) 0 ''updated_at''
     = Some (Timestamp 1)"
proof -
  have q1: "quiet (calm 1)" by (simp add: quiet_def calm_def)
  have t: "target_uid empty_world buyer = 0" by (simp add: target_uid_def empty_world_def)
  show ?thesis
    by (subst sync_field [OF q1]) (simp add: t written_apply calm_def)
qed

lemma sample_twice_stamp:
  "field (snd (syncSubscription (calm 2) buyer ''active'' None
       (snd (syncSubscription (calm 1) buyer ''active'' None empty_world)))) 0 ''updated_at''
     = Some (Timestamp 2)"
proof -
  have q1: "quiet (calm 1)" and q2: "quiet (calm 2)" by (simp_all add: quiet_def calm_def)
  have "target_uid empty_world buyer = 0" by (simp add: target_uid_def empty_world_def)
  with sync_twice_stamp [OF q1 q2, of buyer "''active''" None empty_world]
  show ?thesis by (simp add: calm_def)
qed

theorem sync_twice_differs_counterexample:
  "snd (syncSubscription (calm 2) buyer ''active'' None
         (snd (syncSubscription (calm 1) buyer ''active'' None empty_world))) \<noteq>
   snd (syncSubscription (calm 1) buyer ''active'' None empty_world)"
proof
  assume "snd (syncSubscription (calm 2) buyer ''active'' None
         (snd (syncSubscription (calm 1) buyer ''active'' None empty_world))) =
   snd (syncSubscription (calm 1) buyer ''active'' None empty_world)"
  then have "field (snd (syncSubscription (calm 2) buyer ''active'' None
       (snd (syncSubscription (calm 1) buyer ''active'' None empty_world)))) 0 ''updated_at'' =
     field (snd (syncSubscription (calm 1) buyer ''active'' None empty_world)) 0 ''updated_at''"
    by simp
  then show False by (simp only: sample_once_stamp sample_twice_stamp) simp
qed


lemma touches_refl: "touches e w w"
  by (simp add: touches_def)

lemma touches_sync: "touches e w (snd (syncSubscription e em st cid w))"
  unfolding touches_def by blast

lemma processEvent_touches:
  "processEvent stripe e ev w = Inr w' \<Longrightarrow> touches e w w'"
  by (auto simp: processEvent_def Let_def touches_refl touches_sync
      split: option.splits sum.splits if_splits)

lemma processEvent_modular_touches:
  "processEvent_modular stripe e ev w = Inr w' \<Longrightarrow> touches e w w'"
  by (auto simp: processEvent_modular_def Let_def touches_refl touches_sync
      split: option.splits sum.splits if_splits)

lemma processEvent_netlify_touches:
  "processEvent_netlify stripe e ev w = Inr w' \<Longrightarrow> touches e w w'"
  by (auto simp: processEvent_netlify_def updateUserSubscriptionStatus_eq Let_def
      touches_refl touches_sync split: option.splits sum.splits if_splits)

lemma handler_touches: "touches e w (snd (handler stripe secret e req w))"
  by (auto simp: handler_def touches_refl split: sum.splits dest: processEvent_touches)

lemma handler_modular_touches: "touches e w (snd (handler_modular stripe secret e req w))"
  by (auto simp: handler_modular_def touches_refl split: sum.splits
      dest: processEvent_modular_touches)

lemma handler_netlify_touches: "touches e w (snd (handler_netlify stripe secret e nev w))"
  by (auto simp: handler_netlify_def touches_refl split: sum.splits
      dest: processEvent_netlify_touches)

lemma touches_frame:
  assumes "touches e w w'" "f \<notin> written_fields"
  shows "field w' u f = field w u f"
  using assms sync_frame [of f] by (auto simp: touches_def)


lemma sync_writes:
  assumes "quiet e"
  shows "field (snd (syncSubscription e em st cid w)) (target_uid w em) ''subscription_status''
           = Some (Str st)"
    and "field (snd (syncSubscription e em st cid w)) (target_uid w em) ''email''
           = Some (Str em)"
    and "field (snd (syncSubscription e em st cid w)) (target_uid w em) ''updated_at''
           = Some (Timestamp (now e))"
    and "truthy cid = Some c \<Longrightarrow>
         field (snd (syncSubscription e em st cid w)) (target_uid w em) ''stripe_customer_id''
           = Some (Str c)"
  by (simp_all add: sync_field [OF assms] written_apply)

text \<open>
  Claim C3. The upsert of the reconciler writes only the fields \<open>subscription_status\<close>,
  \<open>updated_at\<close>, \<open>email\<close> and, when a customerId is provided, \<open>stripe_customer_id\<close>:
  every other field of every user document is the same after \<open>syncSubscription\<close> and
  \<open>updateUserSubscriptionStatus\<close> as before, whether the run succeeds or fails, and so it
  is after each of the three handlers on any request; the documents of other uids are
  untouched. When the services reject nothing, the written fields hold the status, the
  email, the server time and the customer id.
\<close>

theorem upsert_frame:
  "(f \<notin> written_fields \<or> (f = ''stripe_customer_id'' \<and> truthy customerId = None) \<longrightarrow>
      field (snd (syncSubscription e em st customerId w)) u f = field w u f \<and>
      field (snd (updateUserSubscriptionStatus e em st customerId w)) u f = field w u f) \<and>
   (u \<noteq> target_uid w em \<longrightarrow>
      users (snd (syncSubscription e em st customerId w)) u = users w u \<and>
      users (snd (updateUserSubscriptionStatus e em st customerId w)) u = users w u) \<and>
   (f \<notin> written_fields \<longrightarrow>
      field (snd (handler stripe secret e req w)) u f = field w u f \<and>
      field (snd (handler_modular stripe secret e req w)) u f = field w u f \<and>
      field (snd (handler_netlify stripe secret e nev w)) u f = field w u f) \<and>
   (quiet e \<longrightarrow>
      (let w' = snd (syncSubscription e em st customerId w); t = target_uid w em
       in field w' t ''subscription_status'' = Some (Str st) \<and>
          field w' t ''email'' = Some (Str em) \<and>
          field w' t ''updated_at'' = Some (Timestamp (now e)) \<and>
          (\<forall>c. truthy customerId = Some c \<longrightarrow>
             field w' t ''stripe_customer_id'' = Some (Str c))))"
proof (intro conjI impI)
  assume "f \<notin> written_fields \<or> (f = ''stripe_customer_id'' \<and> truthy customerId = None)"
  then show "field (snd (syncSubscription e em st customerId w)) u f = field w u f"
    by (rule sync_frame)
  then show "field (snd (updateUserSubscriptionStatus e em st customerId w)) u f = field w u f"
    by (simp add: updateUserSubscriptionStatus_eq)
next
  assume "u \<noteq> target_uid w em"
  then show "users (snd (syncSubscription e em st customerId w)) u = users w u"
    by (rule sync_other_docs)
  then show "users (snd (updateUserSubscriptionStatus e em st customerId w)) u = users w u"
    by (simp add: updateUserSubscriptionStatus_eq)
next
  assume f: "f \<notin> written_fields"
  show "field (snd (handler stripe secret e req w)) u f = field w u f"
    using handler_touches f by (rule touches_frame)
  show "field (snd (handler_modular stripe secret e req w)) u f = field w u f"
    using handler_modular_touches f by (rule touches_frame)
  show "field (snd (handler_netlify stripe secret e nev w)) u f = field w u f"
    using handler_netlify_touches f by (rule touches_frame)
next
  assume "quiet e"
  then show "let w' = snd (syncSubscription e em st customerId w); t = target_uid w em
       in field w' t ''subscription_status'' = Some (Str st) \<and>
          field w' t ''email'' = Some (Str em) \<and>
          field w' t ''updated_at'' = Some (Timestamp (now e)) \<and>
          (\<forall>c. truthy customerId = Some c \<longrightarrow>
             field w' t ''stripe_customer_id'' = Some (Str c))"
    by (simp add: Let_def sync_writes)
qed


theorem upsert_frame_witness:
  "''onboarding_completed'' \<notin> written_fields \<and>
   field onboarded_world 0 ''onboarding_completed'' = Some (Flag True) \<and>
   field (snd (syncSubscription (calm 5) buyer ''active'' (Some ''cus_1'') onboarded_world))
     0 ''onboarding_completed'' = Some (Flag True) \<and>
   quiet (calm 5) \<and>
   field (snd (syncSubscription (calm 5) buyer ''active'' (Some ''cus_1'') onboarded_world))
     (target_uid onboarded_world buyer) ''subscription_status'' = Some (Str ''active'')"
proof -
  have nf: "''onboarding_completed'' \<notin> written_fields" by (simp add: written_fields_def)
  have before: "field onboarded_world 0 ''onboarding_completed'' = Some (Flag True)"
    by (simp add: field_def onboarded_world_def)
  have q: "quiet (calm 5)" by (simp add: quiet_def calm_def)
  note T = upsert_frame [where f = "''onboarding_completed''" and customerId = "Some ''cus_1''"
      and e = "calm 5" and em = buyer and st = "''active''" and w = onboarded_world and u = 0]
  from T nf have "field (snd (syncSubscription (calm 5) buyer ''active'' (Some ''cus_1'')
      onboarded_world)) 0 ''onboarding_completed'' = field onboarded_world 0 ''onboarding_completed''"
    by blast
  then have after: "field (snd (syncSubscription (calm 5) buyer ''active'' (Some ''cus_1'')
      onboarded_world)) 0 ''onboarding_completed'' = Some (Flag True)"
    by (simp only: before)
  from T q have "let w' = snd (syncSubscription (calm 5) buyer ''active'' (Some ''cus_1'')
         onboarded_world); t = target_uid onboarded_world buyer
       in field w' t ''subscription_status'' = Some (Str ''active'') \<and>
          field w' t ''email'' = Some (Str buyer) \<and>
          field w' t ''updated_at'' = Some (Timestamp (now (calm 5))) \<and>
          (\<forall>c. truthy (Some ''cus_1'') = Some c \<longrightarrow>
             field w' t ''stripe_customer_id'' = Some (Str c))"
    by blast
  then have written: "field (snd (syncSubscription (calm 5) buyer ''active'' (Some ''cus_1'')
      onboarded_world)) (target_uid onboarded_world buyer) ''subscription_status''
      = Some (Str ''active'')"
    unfolding Let_def by (elim conjE)
  show ?thesis by (intro conjI) (rule nf before after q written)+
qed

text \<open>
  Claim C5. A request whose signature verification fails is answered with status 400 and
  the message of the failure, and the state is left as it was: no identity is created and
  no document is written. In api/webhook.ts the verification of a POST request fails when
  the signature header or the webhook secret is missing and when \<open>constructEvent\<close>
  throws; in the Netlify handler it fails when \<open>constructEvent\<close> throws. A request to
  api/webhook.ts that is not a POST is answered 405 before any verification, also without
  a change of state.
\<close>

theorem rejected_signature:
  "(httpMethod req = ''POST'' \<and> verifyEvent stripe secret req = Inl msg \<longrightarrow>
      handler stripe secret e req w =
        (\<lparr> statusCode = 400, allow = None, payload = Text (''Webhook Error: '' @ msg) \<rparr>, w)) \<and>
   (truthy (stripe_signature req) = None \<or> secret = [] \<longrightarrow>
      verifyEvent stripe secret req = Inl ''Missing Signature or Webhook Secret'') \<and>
   (truthy (stripe_signature req) = Some sg \<and> secret \<noteq> [] \<longrightarrow>
      verifyEvent stripe secret req = constructEvent stripe (rawBody req) sg secret) \<and>
   (httpMethod req = ''POST'' \<and> verifyEvent_modular stripe secret req = Inl msg \<longrightarrow>
      handler_modular stripe secret e req w =
        (\<lparr> statusCode = 400, allow = None, payload = Text (''Webhook Error: '' @ msg) \<rparr>, w)) \<and>
   (truthy (stripe_signature req) = None \<or> secret = [] \<longrightarrow>
      verifyEvent_modular stripe secret req = Inl ''Missing Stripe Signature or Secret'') \<and>
   (truthy (stripe_signature req) = Some sg \<and> secret \<noteq> [] \<longrightarrow>
      verifyEvent_modular stripe secret req = constructEvent stripe (rawBody req) sg secret) \<and>
   (verifyEvent_netlify stripe secret nev = Inl msg \<longrightarrow>
      handler_netlify stripe secret e nev w =
        (\<lparr> statusCode = 400, allow = None, payload = Text (''Webhook Error: '' @ msg) \<rparr>, w)) \<and>
   verifyEvent_netlify stripe secret nev =
     constructEvent stripe (or_empty (nbody nev)) (or_empty (nsignature nev)) secret \<and>
   (httpMethod req \<noteq> ''POST'' \<longrightarrow>
      statusCode (fst (handler stripe secret e req w)) = 405 \<and>
      snd (handler stripe secret e req w) = w \<and>
      statusCode (fst (handler_modular stripe secret e req w)) = 405 \<and>
      snd (handler_modular stripe secret e req w) = w)"
proof (intro conjI impI)
  show "verifyEvent_netlify stripe secret nev =
     constructEvent stripe (or_empty (nbody nev)) (or_empty (nsignature nev)) secret"
    by (simp add: verifyEvent_netlify_def Let_def)
qed (auto simp: handler_def handler_modular_def handler_netlify_def verifyEvent_def
    verifyEvent_modular_def split: option.splits)

theorem rejected_signature_witness:
  "httpMethod (signed_post ''forged'') = ''POST'' \<and>
   verifyEvent (sample_stripe paid_invoice) ''whsec'' (signed_post ''forged'') = Inl ''No signatures found'' \<and>
   handler (sample_stripe paid_invoice) ''whsec'' (calm 1) (signed_post ''forged'') empty_world =
     (\<lparr> statusCode = 400, allow = None,
        payload = Text (''Webhook Error: '' @ ''No signatures found'') \<rparr>, empty_world)"
proof -
  have p: "httpMethod (signed_post ''forged'') = ''POST''" by (simp add: signed_post_def)
  have v: "verifyEvent (sample_stripe paid_invoice) ''whsec'' (signed_post ''forged'')
      = Inl ''No signatures found''"
    by (simp add: verifyEvent_def signed_post_def sample_stripe_def truthy_def)
  note T = rejected_signature [where req = "signed_post ''forged''" and secret = "''whsec''"
      and stripe = "sample_stripe paid_invoice" and msg = "''No signatures found''"
      and e = "calm 1" and w = empty_world, THEN conjunct1]
  from T p v have h: "handler (sample_stripe paid_invoice) ''whsec'' (calm 1) (signed_post ''forged'')
      empty_world =
     (\<lparr> statusCode = 400, allow = None,
        payload = Text (''Webhook Error: '' @ ''No signatures found'') \<rparr>, empty_world)"
    by blast
  show ?thesis by (intro conjI) (rule p v h)+
qed


lemma sync_create_fails:
  assumes "getUserByEmail e (auth w) em = Inl ''auth/user-not-found''"
    and "createUser e (auth w) em True = Inl err"
  shows "syncSubscription e em st cid w = (False, w)"
  using assms by (simp add: syncSubscription_def)

lemma createUser_existing:
  "create_fault e = None \<Longrightarrow> accounts (auth w) em = Some r \<Longrightarrow>
     createUser e (auth w) em True = Inl ''auth/email-already-exists''"
  by (simp add: createUser_def)

lemma calls_reconciler_fail:
  assumes s: "\<And>st cid. syncSubscription e em st cid w = (False, w)"
    and c: "calls_reconciler stripe ev em"
  shows "processEvent stripe e ev w = Inr w" and "processEvent_modular stripe e ev w = Inr w"
  using c
  by (auto simp: calls_reconciler_def processEvent_def processEvent_modular_def Let_def s
      split: sum.splits)

lemma calls_reconciler_netlify_fail:
  assumes s: "\<And>st cid. syncSubscription e em st cid w = (False, w)"
    and c: "calls_reconciler_netlify stripe ev em"
  shows "processEvent_netlify stripe e ev w = Inr w"
  using c
  by (auto simp: calls_reconciler_netlify_def processEvent_netlify_def Let_def s
      updateUserSubscriptionStatus_eq split: sum.splits)

text \<open>
  Claim C4, amended. When the lookup finds no identity and the creation of the identity
  then fails, for whatever reason and so also because the account exists by then,
  \<open>syncSubscription\<close> and \<open>updateUserSubscriptionStatus\<close> do not swallow the failure:
  they return \<open>false\<close> and leave the state as it was, without the upsert of the
  document. Each of the three handlers, for every event for which it calls the
  reconciler with that email, does not look at the returned value and still answers
  \<open>200 { received: true }\<close>, the state unchanged. \<open>createUser\<close> on an email that has an
  identity fails with \<open>auth/email-already-exists\<close>.
\<close>

theorem create_failure_not_swallowed:
  "(getUserByEmail e (auth w) em = Inl ''auth/user-not-found'' \<and>
    createUser e (auth w) em True = Inl err \<longrightarrow>
      syncSubscription e em st cid w = (False, w) \<and>
      updateUserSubscriptionStatus e em st cid w = (False, w) \<and>
      (httpMethod req = ''POST'' \<and> verifyEvent stripe secret req = Inr ev \<and>
       calls_reconciler stripe ev em \<longrightarrow>
         handler stripe secret e req w = (ok_response, w)) \<and>
      (httpMethod req = ''POST'' \<and> verifyEvent_modular stripe secret req = Inr ev \<and>
       calls_reconciler stripe ev em \<longrightarrow>
         handler_modular stripe secret e req w = (ok_response, w)) \<and>
      (verifyEvent_netlify stripe secret nev = Inr ev \<and>
       calls_reconciler_netlify stripe ev em \<longrightarrow>
         handler_netlify stripe secret e nev w = (ok_response, w))) \<and>
   (create_fault e = None \<and> accounts (auth w) em = Some r \<longrightarrow>
      createUser e (auth w) em True = Inl ''auth/email-already-exists'')"
proof (intro conjI impI)
  assume a: "getUserByEmail e (auth w) em = Inl ''auth/user-not-found'' \<and>
    createUser e (auth w) em True = Inl err"
  then have s: "syncSubscription e em st' cid' w = (False, w)" for st' cid'
    by (intro sync_create_fails) simp_all
  show "syncSubscription e em st cid w = (False, w)" by (rule s)
  show "updateUserSubscriptionStatus e em st cid w = (False, w)"
    by (simp add: updateUserSubscriptionStatus_eq s)
  { assume "httpMethod req = ''POST'' \<and> verifyEvent stripe secret req = Inr ev \<and>
       calls_reconciler stripe ev em"
    then show "handler stripe secret e req w = (ok_response, w)"
      using calls_reconciler_fail(1) [of e em w stripe ev] s
      by (simp add: handler_def ok_response_def) }
  { assume "httpMethod req = ''POST'' \<and> verifyEvent_modular stripe secret req = Inr ev \<and>
       calls_reconciler stripe ev em"
    then show "handler_modular stripe secret e req w = (ok_response, w)"
      using calls_reconciler_fail(2) [of e em w stripe ev] s
      by (simp add: handler_modular_def ok_response_def) }
  { assume "verifyEvent_netlify stripe secret nev = Inr ev \<and>
       calls_reconciler_netlify stripe ev em"
    then show "handler_netlify stripe secret e nev w = (ok_response, w)"
      using calls_reconciler_netlify_fail [of e em w stripe ev] s
      by (simp add: handler_netlify_def ok_response_def) }
next
  assume "create_fault e = None \<and> accounts (auth w) em = Some r"
  then show "createUser e (auth w) em True = Inl ''auth/email-already-exists''"
    by (simp add: createUser_existing)
qed

lemma stale_lookup_answers:
  "getUserByEmail (stale_lookup 1) (auth existing_world) buyer = Inl ''auth/user-not-found''"
  "createUser (stale_lookup 1) (auth existing_world) buyer True = Inl ''auth/email-already-exists''"
  by (simp_all add: getUserByEmail_def createUser_def stale_lookup_def existing_world_def)

lemma paid_invoice_request:
  "httpMethod (signed_post ''good'') = ''POST''"
  "verifyEvent (sample_stripe paid_invoice) ''whsec'' (signed_post ''good'') = Inr paid_invoice"
  "etype paid_invoice = ''invoice.payment_succeeded''"
  "truthy (or_else (customer_details_email (object paid_invoice))
      (customer_email (object paid_invoice))) = Some buyer"
  by (simp_all add: signed_post_def verifyEvent_def sample_stripe_def paid_invoice_def truthy_def
      or_else_def buyer_def)

lemma failed_invoice_request:
  "verifyEvent_netlify (sample_stripe failed_invoice) ''whsec'' (netlify_post ''good'')
     = Inr failed_invoice"
  "calls_reconciler_netlify (sample_stripe failed_invoice) failed_invoice buyer"
  by (simp_all add: verifyEvent_netlify_def sample_stripe_def netlify_post_def or_empty_def
      truthy_def calls_reconciler_netlify_def failed_invoice_def buyer_def)

lemma paid_invoice_calls: "calls_reconciler (sample_stripe paid_invoice) paid_invoice buyer"
  by (simp add: calls_reconciler_def paid_invoice_def truthy_def or_else_def buyer_def)

theorem create_failure_not_swallowed_witness:
  "getUserByEmail (stale_lookup 1) (auth existing_world) buyer = Inl ''auth/user-not-found'' \<and>
   createUser (stale_lookup 1) (auth existing_world) buyer True
     = Inl ''auth/email-already-exists'' \<and>
   updateUserSubscriptionStatus (stale_lookup 1) buyer ''past_due'' None existing_world
     = (False, existing_world) \<and>
   handler (sample_stripe paid_invoice) ''whsec'' (stale_lookup 1) (signed_post ''good'')
     existing_world = (ok_response, existing_world) \<and>
   handler_netlify (sample_stripe failed_invoice) ''whsec'' (stale_lookup 1)
     (netlify_post ''good'') existing_world = (ok_response, existing_world)"
proof -
  have pre: "getUserByEmail (stale_lookup 1) (auth existing_world) buyer
        = Inl ''auth/user-not-found'' \<and>
      createUser (stale_lookup 1) (auth existing_world) buyer True
        = Inl ''auth/email-already-exists''"
    by (simp only: stale_lookup_answers)
  note T1 = create_failure_not_swallowed [where e = "stale_lookup 1" and w = existing_world
      and em = buyer and err = "''auth/email-already-exists''" and st = "''past_due''"
      and cid = None and req = "signed_post ''good''" and stripe = "sample_stripe paid_invoice"
      and secret = "''whsec''" and ev = paid_invoice, THEN conjunct1, THEN mp, OF pre]
  note T2 = create_failure_not_swallowed [where e = "stale_lookup 1" and w = existing_world
      and em = buyer and err = "''auth/email-already-exists''" and st = "''past_due''"
      and cid = None and nev = "netlify_post ''good''"
      and stripe = "sample_stripe failed_invoice"
      and secret = "''whsec''" and ev = failed_invoice, THEN conjunct1, THEN mp, OF pre]
  have reqs: "httpMethod (signed_post ''good'') = ''POST'' \<and>
      verifyEvent (sample_stripe paid_invoice) ''whsec'' (signed_post ''good'')
        = Inr paid_invoice \<and>
      calls_reconciler (sample_stripe paid_invoice) paid_invoice buyer"
    by (simp only: paid_invoice_request paid_invoice_calls)
  have nreqs: "verifyEvent_netlify (sample_stripe failed_invoice) ''whsec''
        (netlify_post ''good'') = Inr failed_invoice \<and>
      calls_reconciler_netlify (sample_stripe failed_invoice) failed_invoice buyer"
    by (simp only: failed_invoice_request)
  from T1 have u: "updateUserSubscriptionStatus (stale_lookup 1) buyer ''past_due'' None
      existing_world = (False, existing_world)"
    by blast
  from T1 reqs have h: "handler (sample_stripe paid_invoice) ''whsec'' (stale_lookup 1)
      (signed_post ''good'') existing_world = (ok_response, existing_world)"
    by blast
  from T2 nreqs have n: "handler_netlify (sample_stripe failed_invoice) ''whsec''
      (stale_lookup 1) (netlify_post ''good'') existing_world = (ok_response, existing_world)"
    by blast
  show ?thesis
    by (intro conjI) (rule pre [THEN conjunct1] pre [THEN conjunct2] u h n)+
qed

text \<open>
  The claim as stated fails: the identity of the buyer exists by the time \<open>createUser\<close>
  runs, the lookup having answered before; the creation is rejected, the reconciler
  returns \<open>false\<close> and no document is written.
\<close>

theorem conflict_not_swallowed_counterexample:
  "createUser (stale_lookup 1) (auth existing_world) buyer True
     = Inl ''auth/email-already-exists'' \<and>
   fst (syncSubscription (stale_lookup 1) buyer ''active'' None existing_world) = False \<and>
   field (snd (syncSubscription (stale_lookup 1) buyer ''active'' None existing_world))
     0 ''subscription_status'' = None"
proof -
  have s: "syncSubscription (stale_lookup 1) buyer ''active'' None existing_world
      = (False, existing_world)"
    by (rule sync_create_fails) (rule stale_lookup_answers)+
  have c: "createUser (stale_lookup 1) (auth existing_world) buyer True
     = Inl ''auth/email-already-exists''"
    by (rule stale_lookup_answers)
  have f: "fst (syncSubscription (stale_lookup 1) buyer ''active'' None existing_world) = False"
    by (simp only: s fst_conv)
  have d: "field (snd (syncSubscription (stale_lookup 1) buyer ''active'' None existing_world))
     0 ''subscription_status'' = None"
    by (simp only: s snd_conv) (simp add: field_def existing_world_def)
  show ?thesis by (intro conjI) (rule c f d)+
qed


lemma handler_ack:
  assumes "quiet e" "httpMethod req = ''POST''" "verifyEvent stripe secret req = Inr ev"
    and "\<exists>cid. processEvent stripe e ev w = Inr (snd (syncSubscription e em st cid w))"
  shows "acknowledged_with (handler stripe secret e req w) em st"
  using assms
  by (auto simp: handler_def acknowledged_with_def ok_response_def sync_status)

lemma handler_ign:
  assumes "httpMethod req = ''POST''" "verifyEvent stripe secret req = Inr ev"
    and "processEvent stripe e ev w = Inr w"
  shows "ignored (handler stripe secret e req w) w"
  using assms by (simp add: handler_def ignored_def ok_response_def)

lemma handler_modular_ack:
  assumes "quiet e" "httpMethod req = ''POST''" "verifyEvent_modular stripe secret req = Inr ev"
    and "\<exists>cid. processEvent_modular stripe e ev w = Inr (snd (syncSubscription e em st cid w))"
  shows "acknowledged_with (handler_modular stripe secret e req w) em st"
  using assms
  by (auto simp: handler_modular_def acknowledged_with_def ok_response_def sync_status)

lemma handler_modular_ign:
  assumes "httpMethod req = ''POST''" "verifyEvent_modular stripe secret req = Inr ev"
    and "processEvent_modular stripe e ev w = Inr w"
  shows "ignored (handler_modular stripe secret e req w) w"
  using assms by (simp add: handler_modular_def ignored_def ok_response_def)

lemma handler_netlify_ack:
  assumes "quiet e" "verifyEvent_netlify stripe secret nev = Inr ev"
    and "\<exists>cid. processEvent_netlify stripe e ev w = Inr (snd (syncSubscription e em st cid w))"
  shows "acknowledged_with (handler_netlify stripe secret e nev w) em st"
  using assms
  by (auto simp: handler_netlify_def acknowledged_with_def ok_response_def sync_status)

lemma handler_netlify_ign:
  assumes "verifyEvent_netlify stripe secret nev = Inr ev"
    and "processEvent_netlify stripe e ev w = Inr w"
  shows "ignored (handler_netlify stripe secret e nev w) w"
  using assms by (simp add: handler_netlify_def ignored_def ok_response_def)

lemma spec_status_None:
  "spec_status ty reported = None \<longleftrightarrow>
     ty \<noteq> ''checkout.session.completed'' \<and> ty \<noteq> ''invoice.payment_succeeded'' \<and>
     ty \<noteq> ''invoice.payment_failed'' \<and> ty \<noteq> ''customer.subscription.updated'' \<and>
     ty \<noteq> ''customer.subscription.deleted''"
  by (simp add: spec_status_def)

lemma vercel_mapping:
  assumes q: "quiet e" and p: "httpMethod req = ''POST''"
    and v: "verifyEvent stripe secret req = Inr ev"
  shows "(let out = handler stripe secret e req w; obj = object ev; ty = etype ev in
      ((ty = ''checkout.session.completed'' \<or> ty = ''invoice.payment_succeeded'') \<and>
        truthy (or_else (customer_details_email obj) (customer_email obj)) = Some em \<longrightarrow>
          acknowledged_with out em ''active'') \<and>
      (ty = ''invoice.payment_failed'' \<and> truthy (customer_email obj) = Some em \<longrightarrow>
          acknowledged_with out em ''past_due'') \<and>
      (ty = ''customer.subscription.updated'' \<and>
        customers_retrieve stripe (customer obj) = Inr cust \<and> truthy (email cust) = Some em \<longrightarrow>
          acknowledged_with out em (status obj)) \<and>
      (ty = ''customer.subscription.deleted'' \<and>
        customers_retrieve stripe (customer obj) = Inr cust \<and> truthy (email cust) = Some em \<longrightarrow>
          acknowledged_with out em ''canceled'') \<and>
      (spec_status ty (status obj) = None \<longrightarrow> ignored out w))"
  unfolding Let_def
proof (intro conjI impI)
  assume "(etype ev = ''checkout.session.completed'' \<or> etype ev = ''invoice.payment_succeeded'') \<and>
        truthy (or_else (customer_details_email (object ev)) (customer_email (object ev))) = Some em"
  then have "\<exists>cid. processEvent stripe e ev w = Inr (snd (syncSubscription e em ''active'' cid w))"
    by (auto simp: processEvent_def Let_def)
  with q p v show "acknowledged_with (handler stripe secret e req w) em ''active''"
    by (rule handler_ack)
next
  assume "etype ev = ''invoice.payment_failed'' \<and> truthy (customer_email (object ev)) = Some em"
  then have "\<exists>cid. processEvent stripe e ev w = Inr (snd (syncSubscription e em ''past_due'' cid w))"
    by (auto simp: processEvent_def Let_def)
  with q p v show "acknowledged_with (handler stripe secret e req w) em ''past_due''"
    by (rule handler_ack)
next
  assume "etype ev = ''customer.subscription.updated'' \<and>
        customers_retrieve stripe (customer (object ev)) = Inr cust \<and> truthy (email cust) = Some em"
  then have "\<exists>cid. processEvent stripe e ev w =
      Inr (snd (syncSubscription e em (status (object ev)) cid w))"
    by (auto simp: processEvent_def Let_def)
  with q p v show "acknowledged_with (handler stripe secret e req w) em (status (object ev))"
    by (rule handler_ack)
next
  assume "etype ev = ''customer.subscription.deleted'' \<and>
        customers_retrieve stripe (customer (object ev)) = Inr cust \<and> truthy (email cust) = Some em"
  then have "\<exists>cid. processEvent stripe e ev w = Inr (snd (syncSubscription e em ''canceled'' cid w))"
    by (auto simp: processEvent_def Let_def)
  with q p v show "acknowledged_with (handler stripe secret e req w) em ''canceled''"
    by (rule handler_ack)
next
  assume "spec_status (etype ev) (status (object ev)) = None"
  then have "processEvent stripe e ev w = Inr w"
    by (simp add: spec_status_None processEvent_def Let_def)
  with p v show "ignored (handler stripe secret e req w) w"
    by (rule handler_ign)
qed

lemma modular_mapping:
  assumes q: "quiet e" and p: "httpMethod req = ''POST''"
    and v: "verifyEvent_modular stripe secret req = Inr ev"
  shows "(let out = handler_modular stripe secret e req w; obj = object ev; ty = etype ev in
      ((ty = ''checkout.session.completed'' \<or> ty = ''invoice.payment_succeeded'') \<and>
        truthy (or_else (customer_details_email obj) (customer_email obj)) = Some em \<longrightarrow>
          acknowledged_with out em ''active'') \<and>
      (ty = ''invoice.payment_failed'' \<and> truthy (customer_email obj) = Some em \<longrightarrow>
          acknowledged_with out em ''past_due'') \<and>
      (ty = ''customer.subscription.updated'' \<and>
        customers_retrieve stripe (customer obj) = Inr cust \<and> truthy (email cust) = Some em \<longrightarrow>
          acknowledged_with out em (status obj)) \<and>
      (ty = ''customer.subscription.deleted'' \<and>
        customers_retrieve stripe (customer obj) = Inr cust \<and> truthy (email cust) = Some em \<longrightarrow>
          acknowledged_with out em ''canceled'') \<and>
      (spec_status ty (status obj) = None \<longrightarrow> ignored out w))"
  unfolding Let_def
proof (intro conjI impI)
  assume "(etype ev = ''checkout.session.completed'' \<or> etype ev = ''invoice.payment_succeeded'') \<and>
        truthy (or_else (customer_details_email (object ev)) (customer_email (object ev))) = Some em"
  then have "\<exists>cid. processEvent_modular stripe e ev w =
      Inr (snd (syncSubscription e em ''active'' cid w))"
    by (auto simp: processEvent_modular_def Let_def)
  with q p v show "acknowledged_with (handler_modular stripe secret e req w) em ''active''"
    by (rule handler_modular_ack)
next
  assume "etype ev = ''invoice.payment_failed'' \<and> truthy (customer_email (object ev)) = Some em"
  then have "\<exists>cid. processEvent_modular stripe e ev w =
      Inr (snd (syncSubscription e em ''past_due'' cid w))"
    by (auto simp: processEvent_modular_def Let_def)
  with q p v show "acknowledged_with (handler_modular stripe secret e req w) em ''past_due''"
    by (rule handler_modular_ack)
next
  assume "etype ev = ''customer.subscription.updated'' \<and>
        customers_retrieve stripe (customer (object ev)) = Inr cust \<and> truthy (email cust) = Some em"
  then have "\<exists>cid. processEvent_modular stripe e ev w =
      Inr (snd (syncSubscription e em (status (object ev)) cid w))"
    by (auto simp: processEvent_modular_def Let_def)
  with q p v
  show "acknowledged_with (handler_modular stripe secret e req w) em (status (object ev))"
    by (rule handler_modular_ack)
next
  assume "etype ev = ''customer.subscription.deleted'' \<and>
        customers_retrieve stripe (customer (object ev)) = Inr cust \<and> truthy (email cust) = Some em"
  then have "\<exists>cid. processEvent_modular stripe e ev w =
      Inr (snd (syncSubscription e em ''canceled'' cid w))"
    by (auto simp: processEvent_modular_def Let_def)
  with q p v show "acknowledged_with (handler_modular stripe secret e req w) em ''canceled''"
    by (rule handler_modular_ack)
next
  assume "spec_status (etype ev) (status (object ev)) = None"
  then have "processEvent_modular stripe e ev w = Inr w"
    by (simp add: spec_status_None processEvent_modular_def Let_def)
  with p v show "ignored (handler_modular stripe secret e req w) w"
    by (rule handler_modular_ign)
qed

lemma netlify_mapping:
  assumes q: "quiet e" and v: "verifyEvent_netlify stripe secret nev = Inr ev"
  shows "(let out = handler_netlify stripe secret e nev w; obj = object ev; ty = etype ev in
      (ty = ''checkout.session.completed'' \<and> truthy (customer_details_email obj) = Some em \<longrightarrow>
          acknowledged_with out em ''active'') \<and>
      (ty = ''invoice.payment_failed'' \<and> truthy (customer_email obj) = Some em \<longrightarrow>
          acknowledged_with out em ''past_due'') \<and>
      (ty = ''customer.subscription.deleted'' \<and>
        customers_retrieve stripe (customer obj) = Inr cust \<and> truthy (email cust) = Some em \<longrightarrow>
          acknowledged_with out em ''canceled'') \<and>
      (ty \<noteq> ''checkout.session.completed'' \<and> ty \<noteq> ''invoice.payment_failed'' \<and>
       ty \<noteq> ''customer.subscription.deleted'' \<longrightarrow> ignored out w))"
  unfolding Let_def
proof (intro conjI impI)
  assume "etype ev = ''checkout.session.completed'' \<and>
      truthy (customer_details_email (object ev)) = Some em"
  then have "\<exists>cid. processEvent_netlify stripe e ev w =
      Inr (snd (syncSubscription e em ''active'' cid w))"
    by (auto simp: processEvent_netlify_def updateUserSubscriptionStatus_eq Let_def)
  with q v show "acknowledged_with (handler_netlify stripe secret e nev w) em ''active''"
    by (rule handler_netlify_ack)
next
  assume "etype ev = ''invoice.payment_failed'' \<and> truthy (customer_email (object ev)) = Some em"
  then have "\<exists>cid. processEvent_netlify stripe e ev w =
      Inr (snd (syncSubscription e em ''past_due'' cid w))"
    by (auto simp: processEvent_netlify_def updateUserSubscriptionStatus_eq Let_def)
  with q v show "acknowledged_with (handler_netlify stripe secret e nev w) em ''past_due''"
    by (rule handler_netlify_ack)
next
  assume "etype ev = ''customer.subscription.deleted'' \<and>
        customers_retrieve stripe (customer (object ev)) = Inr cust \<and> truthy (email cust) = Some em"
  then have "\<exists>cid. processEvent_netlify stripe e ev w =
      Inr (snd (syncSubscription e em ''canceled'' cid w))"
    by (auto simp: processEvent_netlify_def updateUserSubscriptionStatus_eq Let_def)
  with q v show "acknowledged_with (handler_netlify stripe secret e nev w) em ''canceled''"
    by (rule handler_netlify_ack)
next
  assume "etype ev \<noteq> ''checkout.session.completed'' \<and> etype ev \<noteq> ''invoice.payment_failed'' \<and>
       etype ev \<noteq> ''customer.subscription.deleted''"
  then have "processEvent_netlify stripe e ev w = Inr w"
    by (simp add: processEvent_netlify_def Let_def)
  with v show "ignored (handler_netlify stripe secret e nev w) w"
    by (rule handler_netlify_ign)
qed


text \<open>
  Claim C2, amended. When the services reject nothing, the two handlers of api/webhook.ts
  map a verified event as specified: checkout completed and invoice paid set the status
  \<open>active\<close>, invoice payment failed sets \<open>past_due\<close>, subscription updated stores the
  status that the provider reports, subscription deleted sets \<open>canceled\<close>, each for the
  email of the event or of the retrieved customer and with the answer
  \<open>200 { received: true }\<close>; any other event type leaves the state as it was and is
  answered in the same way. The Netlify handler maps checkout completed, invoice payment
  failed and subscription deleted in this way and ignores every other type, invoice paid
  and subscription updated among them.
\<close>

theorem handler_event_status:
  assumes "quiet e"
  shows "(httpMethod req = ''POST'' \<and> verifyEvent stripe secret req = Inr ev \<longrightarrow>
            maps_as_specified stripe ev (handler stripe secret e req w) w) \<and>
         (httpMethod req = ''POST'' \<and> verifyEvent_modular stripe secret req = Inr ev \<longrightarrow>
            maps_as_specified stripe ev (handler_modular stripe secret e req w) w) \<and>
         (verifyEvent_netlify stripe secret nev = Inr ev \<longrightarrow>
            maps_three_types stripe ev (handler_netlify stripe secret e nev w) w)"
proof (intro conjI impI)
  assume "httpMethod req = ''POST'' \<and> verifyEvent stripe secret req = Inr ev"
  then have p: "httpMethod req = ''POST''" and v: "verifyEvent stripe secret req = Inr ev"
    by simp_all
  show "maps_as_specified stripe ev (handler stripe secret e req w) w"
    unfolding maps_as_specified_def
    using vercel_mapping [OF assms p v, of w] by (simp only: Let_def) blast
next
  assume "httpMethod req = ''POST'' \<and> verifyEvent_modular stripe secret req = Inr ev"
  then have p: "httpMethod req = ''POST''" and v: "verifyEvent_modular stripe secret req = Inr ev"
    by simp_all
  show "maps_as_specified stripe ev (handler_modular stripe secret e req w) w"
    unfolding maps_as_specified_def
    using modular_mapping [OF assms p v, of w] by (simp only: Let_def) blast
next
  assume v: "verifyEvent_netlify stripe secret nev = Inr ev"
  show "maps_three_types stripe ev (handler_netlify stripe secret e nev w) w"
    unfolding maps_three_types_def
    using netlify_mapping [OF assms v, of w] by (simp only: Let_def) blast
qed

theorem handler_event_status_witness:
  "quiet (calm 1) \<and> httpMethod (signed_post ''good'') = ''POST'' \<and>
   verifyEvent (sample_stripe paid_invoice) ''whsec'' (signed_post ''good'') = Inr paid_invoice \<and>
   etype paid_invoice = ''invoice.payment_succeeded'' \<and>
   truthy (or_else (customer_details_email (object paid_invoice))
      (customer_email (object paid_invoice))) = Some buyer \<and>
   fst (handler (sample_stripe paid_invoice) ''whsec'' (calm 1) (signed_post ''good'') empty_world)
     = ok_response \<and>
   status_of (snd (handler (sample_stripe paid_invoice) ''whsec'' (calm 1) (signed_post ''good'')
     empty_world)) buyer = Some (Str ''active'')"
proof -
  have q: "quiet (calm 1)" by (simp add: quiet_def calm_def)
  note T = handler_event_status [OF q, where req = "signed_post ''good''" and secret = "''whsec''"
      and stripe = "sample_stripe paid_invoice" and ev = paid_invoice and w = empty_world,
      THEN conjunct1]
  have pv: "httpMethod (signed_post ''good'') = ''POST'' \<and>
      verifyEvent (sample_stripe paid_invoice) ''whsec'' (signed_post ''good'') = Inr paid_invoice"
    by (simp only: paid_invoice_request)
  have ty: "(etype paid_invoice = ''checkout.session.completed'' \<or>
        etype paid_invoice = ''invoice.payment_succeeded'') \<and>
      truthy (or_else (customer_details_email (object paid_invoice))
        (customer_email (object paid_invoice))) = Some buyer"
    by (simp add: paid_invoice_request)
  from T pv have "maps_as_specified (sample_stripe paid_invoice) paid_invoice
      (handler (sample_stripe paid_invoice) ''whsec'' (calm 1) (signed_post ''good'') empty_world)
      empty_world"
    by (rule mp)
  with ty have "acknowledged_with
      (handler (sample_stripe paid_invoice) ''whsec'' (calm 1) (signed_post ''good'') empty_world)
      buyer ''active''"
    unfolding maps_as_specified_def Let_def by blast
  then have a: "fst (handler (sample_stripe paid_invoice) ''whsec'' (calm 1) (signed_post ''good'')
        empty_world) = ok_response"
    and b: "status_of (snd (handler (sample_stripe paid_invoice) ''whsec'' (calm 1)
        (signed_post ''good'') empty_world)) buyer = Some (Str ''active'')"
    by (simp_all only: acknowledged_with_def)
  show ?thesis
    by (intro conjI) (rule q a b paid_invoice_request)+
qed

text \<open>
  The claim as stated fails for the Netlify handler: a paid invoice is ignored there, and
  the buyer has no status afterwards.
\<close>

lemma paid_invoice_netlify:
  "verifyEvent_netlify (sample_stripe paid_invoice) ''whsec'' (netlify_post ''good'')
     = Inr paid_invoice"
  by (simp add: verifyEvent_netlify_def sample_stripe_def netlify_post_def or_empty_def
      truthy_def)

theorem netlify_ignores_paid_invoice_counterexample:
  "quiet (calm 1) \<and>
   verifyEvent_netlify (sample_stripe paid_invoice) ''whsec'' (netlify_post ''good'')
     = Inr paid_invoice \<and>
   etype paid_invoice = ''invoice.payment_succeeded'' \<and>
   customer_email (object paid_invoice) = Some buyer \<and>
   handler_netlify (sample_stripe paid_invoice) ''whsec'' (calm 1) (netlify_post ''good'')
     empty_world = (ok_response, empty_world) \<and>
   status_of (snd (handler_netlify (sample_stripe paid_invoice) ''whsec'' (calm 1)
     (netlify_post ''good'') empty_world)) buyer = None"
proof -
  have q: "quiet (calm 1)" by (simp add: quiet_def calm_def)
  have t: "etype paid_invoice = ''invoice.payment_succeeded''"
    and c: "customer_email (object paid_invoice) = Some buyer"
    by (simp_all add: paid_invoice_def)
  have h: "handler_netlify (sample_stripe paid_invoice) ''whsec'' (calm 1) (netlify_post ''good'')
     empty_world = (ok_response, empty_world)"
    by (simp add: handler_netlify_def paid_invoice_netlify processEvent_netlify_def Let_def t
        ok_response_def)
  have s: "status_of (snd (handler_netlify (sample_stripe paid_invoice) ''whsec'' (calm 1)
     (netlify_post ''good'') empty_world)) buyer = None"
    by (simp only: h snd_conv) (simp add: status_of_def empty_world_def)
  show ?thesis by (intro conjI) (rule q paid_invoice_netlify t c h s)+
qed


end
